theory Spec2Isabelle
  imports Main
begin

section \<open>The orchestrator of stk_balance: \<^verbatim>\<open>stk::balance::LifeCycle\<close>\<close>

text \<open>
  The development embeds \<^verbatim>\<open>stk_balance/setup/LifeCycle.cpp\<close>. One value of
  the record \<open>State\<close> is one process of the parallel machine: the members of its
  \<^verbatim>\<open>LifeCycle\<close> object, the process-wide output pointer
  \<^verbatim>\<open>stk::EnvData::instance().m_outputP0\<close>, the registry of log streams, and a
  history of every call the object makes to a collaborator and of every line it writes.
  The collaborators (parser, file validator, mesh I/O, balancer) live outside this file of
  the repository; what they answer is a parameter of the model, the record \<open>World\<close>.
  An exception derived from \<^verbatim>\<open>std::exception\<close>, the type that both catch clauses
  of the source name, is the text of its \<^verbatim>\<open>what()\<close>. The parser and the
  validator fail with such a descriptive error. A step of the mesh pipeline may also throw
  a value of another type, which \<^verbatim>\<open>run()\<close> does not catch: \<open>run\<close> returns, beside
  the state it leaves, the thrown value that leaves it, if any.
\<close>

subsection \<open>Data\<close>

type_synonym exception = string

text \<open>
  A value thrown by a step of the mesh pipeline. The source catches with
  \<^verbatim>\<open>catch(std::exception& e)\<close> and has no \<^verbatim>\<open>catch(...)\<close>: what is thrown
  is either derived from \<^verbatim>\<open>std::exception\<close>, and then carries the text of its
  \<^verbatim>\<open>what()\<close>, or it is a value of another type, which that clause does not match.
\<close>

datatype thrown = StdException exception | OtherThrown

record Settings =
  get_input_filename :: string
  get_output_filename :: string
  get_log_filename :: string

record MPI_Comm =
  comm_rank :: int
  comm_size :: int

definition parallel_machine_rank :: "MPI_Comm \<Rightarrow> int" where
  "parallel_machine_rank c = comm_rank c"

definition parallel_machine_size :: "MPI_Comm \<Rightarrow> int" where
  "parallel_machine_size c = comm_size c"

text \<open>
  The streams a process can write to: the two standard streams, a log file (by its path),
  the null sink \<^verbatim>\<open>m_outputNull\<close>, and the local \<^verbatim>\<open>diag_stream\<close> of
  \<^verbatim>\<open>print_running_message\<close>.
\<close>

datatype ostream = StdCout | StdCerr | LogFile string | OutputNull | DiagStream

text \<open>
  The history. \<open>'m\<close> is the opaque mesh handle \<^verbatim>\<open>BalanceMesh\<close>.
  An event is recorded when the call is made, before its outcome is known.
\<close>

datatype 'm event =
    InitializeEnvironment
  | ParseCommandLineOptions "string list"
  | RequireFileExists string
  | SerialInputEqualsOutput string string
  | NewBalanceIO MPI_Comm Settings
  | NewBalancer Settings
  | InitialDecomp
  | Balance 'm
  | WriteMesh 'm
  | RegisterOstream string
  | UnregisterOstream string
  | BindOutputStreams string
  | SetIossOutputStream "ostream option"
  | PrintBanner ostream
  | Write ostream string
  | NullDereference

text \<open>
  What the collaborators answer. \<open>Inl\<close> is a thrown exception: the descriptive error of
  the parser and of the validator, or whatever a step of the pipeline throws. The default-constructed
  \<^verbatim>\<open>Settings\<close> and the value of \<^verbatim>\<open>m_outputP0\<close> at process start are
  declared outside the embedded file and are parameters as well.
\<close>

record 'm World =
  parse_command_line_options :: "string list \<Rightarrow> Settings \<Rightarrow> exception + Settings"
  file_exists :: "string \<Rightarrow> bool"
  file_missing_what :: "string \<Rightarrow> exception"
  canonical_path :: "string \<Rightarrow> string"
  initial_decomp :: "thrown + 'm"
  balancer_balance :: "'m \<Rightarrow> thrown + 'm"
  io_write :: "'m \<Rightarrow> thrown option"
  default_settings :: Settings
  initial_outputP0 :: "ostream option"

record 'm State =
  m_comm :: MPI_Comm
  m_argv :: "string list"
  m_exitCode :: int
  m_isProc0 :: bool
  m_settings :: Settings
  m_outputP0 :: "ostream option"
  log_registry :: "(string \<times> ostream) list"
  trace :: "'m event list"

text \<open>Performing events appends them to the history.\<close>

definition perform :: "'m event list \<Rightarrow> 'm State \<Rightarrow> 'm State" where
  "perform es s = s\<lparr>trace := trace s @ es\<rparr>"

subsection \<open>Text written with \<^verbatim>\<open>operator<<\<close>\<close>

definition endl :: string where
  "endl = [CHR 0x0A]"

definition dquote :: string where
  "dquote = [CHR 0x22]"

definition digit_char :: "nat \<Rightarrow> char" where
  "digit_char d = ''0123456789'' ! d"

fun show_nat :: "nat \<Rightarrow> string" where
  "show_nat n = (if n < 10 then [digit_char n] else show_nat (n div 10) @ [digit_char (n mod 10)])"

declare show_nat.simps [simp del]

text \<open>\<^verbatim>\<open>os << i\<close> for an \<^verbatim>\<open>int\<close>: decimal, with a sign when negative.\<close>

definition show_int :: "int \<Rightarrow> string" where
  "show_int i = (if i < 0 then CHR ''-'' # show_nat (nat (- i)) else show_nat (nat i))"

text \<open>Reading a decimal numeral back, to say what \<open>show_int\<close> prints.\<close>

definition digit_value :: "char \<Rightarrow> nat" where
  "digit_value c = of_char c - 48"

definition read_nat :: "string \<Rightarrow> nat" where
  "read_nat cs = foldl (\<lambda>acc c. 10 * acc + digit_value c) 0 cs"

definition read_int :: "string \<Rightarrow> int" where
  "read_int cs = (case cs of
      [] \<Rightarrow> 0
    | c # rest \<Rightarrow> if c = CHR ''-'' then - int (read_nat rest) else int (read_nat cs))"

subsection \<open>Collaborators outside the embedded file\<close>

text \<open>
  Modelled from the spec: \<^verbatim>\<open>Validator.requireFileExists(path)\<close>
  (\<^verbatim>\<open>m_validator.require_file_exists\<close>, defined outside the embedded file)
  "fails if the path does not resolve to an existing file".
\<close>

definition require_file_exists :: "'m World \<Rightarrow> string \<Rightarrow> exception option" where
  "require_file_exists w path =
     (if file_exists w path then None else Some (file_missing_what w path))"

text \<open>
  Modelled from the spec: \<^verbatim>\<open>Validator.isSerialNoOp(inputPath, outputPath)\<close>
  (\<^verbatim>\<open>m_validator.serial_input_equals_output\<close>, defined outside the embedded
  file) is "true iff ProcessGroup size is exactly 1 AND the canonicalized input path equals
  the canonicalized output path".
\<close>

definition serial_input_equals_output :: "'m World \<Rightarrow> MPI_Comm \<Rightarrow> string \<Rightarrow> string \<Rightarrow> bool" where
  "serial_input_equals_output w c inp outp =
     (parallel_machine_size c = 1 \<and> canonical_path w inp = canonical_path w outp)"

text \<open>
  Modelled from the spec: the log registry of \<^verbatim>\<open>stk_util\<close>
  (\<^verbatim>\<open>stk::get_log_ostream\<close>, \<^verbatim>\<open>stk::bind_output_streams\<close>, defined outside
  the embedded file). The sentinel names \<^verbatim>\<open>"cout"\<close> and \<^verbatim>\<open>"cerr"\<close> mean "the
  process's standard stream directly"; a command \<^verbatim>\<open>name="path"\<close> binds the log
  \<^verbatim>\<open>name\<close> to the named file. A lookup of an unknown name gives the null pointer.
  The commands \<^verbatim>\<open>stream>dest\<close> and \<^verbatim>\<open>stream>+dest\<close> route a registered stream;
  the model records them and does not follow the routing.
\<close>

definition initial_log_registry :: "(string \<times> ostream) list" where
  "initial_log_registry = [(''cout'', StdCout), (''cerr'', StdCerr)]"

definition get_log_ostream :: "(string \<times> ostream) list \<Rightarrow> string \<Rightarrow> ostream option" where
  "get_log_ostream registry name = map_of registry name"

datatype bind_command = OpenLog string string | Redirect string string | AddDestination string string

fun command_text :: "bind_command \<Rightarrow> string" where
  "command_text (OpenLog name path) = name @ ''='' @ dquote @ path @ dquote"
| "command_text (Redirect stream dest) = stream @ ''>'' @ dest"
| "command_text (AddDestination stream dest) = stream @ ''>+'' @ dest"

fun bound_registry :: "bind_command \<Rightarrow> (string \<times> ostream) list \<Rightarrow> (string \<times> ostream) list" where
  "bound_registry (OpenLog name path) registry = (name, LogFile path) # registry"
| "bound_registry cmd registry = registry"

definition bind_output_streams :: "bind_command \<Rightarrow> 'm State \<Rightarrow> 'm State" where
  "bind_output_streams cmd s =
     perform [BindOutputStreams (command_text cmd)]
       (s\<lparr>log_registry := bound_registry cmd (log_registry s)\<rparr>)"

text \<open>
  A write through \<^verbatim>\<open>sierra::Env::outputP0()\<close>, which dereferences
  \<^verbatim>\<open>m_outputP0\<close>.
\<close>

definition through_outputP0 :: "(ostream \<Rightarrow> 'm event) \<Rightarrow> 'm State \<Rightarrow> 'm event list" where
  "through_outputP0 f s = (case m_outputP0 s of Some os \<Rightarrow> [f os] | None \<Rightarrow> [NullDereference])"

text \<open>\<^verbatim>\<open>print_banner(std::ostream&)\<close> of \<^verbatim>\<open>LogUtils\<close> writes to the stream it is given.\<close>

definition print_banner :: "'m State \<Rightarrow> 'm event list" where
  "print_banner s = through_outputP0 PrintBanner s"

subsection \<open>The member functions of \<^verbatim>\<open>LifeCycle\<close>\<close>

text \<open>
  A member function that can throw returns the exception beside its effect. The
  \<^verbatim>\<open>const\<close> member functions that print, and \<^verbatim>\<open>balance\<close>, which works on
  local objects only, leave the members as they are: their effect is the list of events
  they perform, in order. \<^verbatim>\<open>parse\<close> and \<^verbatim>\<open>set_output_streams\<close> change
  members or process-wide data and return the new state.
\<close>

definition parse :: "'m World \<Rightarrow> 'm State \<Rightarrow> exception option \<times> 'm State" where
  "parse w s =
     (let s1 = perform [ParseCommandLineOptions (m_argv s)] s in
      case parse_command_line_options w (m_argv s) (m_settings s) of
        Inl e \<Rightarrow> (Some e, s1)
      | Inr st \<Rightarrow>
          (let s2 = s1\<lparr>m_settings := st\<rparr>;
               s3 = perform [RequireFileExists (get_input_filename (m_settings s2))] s2
           in (require_file_exists w (get_input_filename (m_settings s2)), s3)))"

definition serial_no_op :: "'m World \<Rightarrow> 'm State \<Rightarrow> bool" where
  "serial_no_op w s =
     serial_input_equals_output w (m_comm s)
       (get_input_filename (m_settings s)) (get_output_filename (m_settings s))"

definition balance :: "'m World \<Rightarrow> 'm State \<Rightarrow> thrown option \<times> 'm event list" where
  "balance w s =
     (let es = [NewBalanceIO (m_comm s) (m_settings s), NewBalancer (m_settings s), InitialDecomp] in
      case initial_decomp w of
        Inl e \<Rightarrow> (Some e, es)
      | Inr mesh \<Rightarrow>
          (case balancer_balance w mesh of
             Inl e \<Rightarrow> (Some e, es @ [Balance mesh])
           | Inr mesh' \<Rightarrow> (io_write w mesh', es @ [Balance mesh, WriteMesh mesh'])))"

definition set_output_streams :: "'m State \<Rightarrow> 'm State" where
  "set_output_streams s =
     (let s1 =
        (if m_isProc0 s then
           (let logName = get_log_filename (m_settings s) in
            if logName = ''cout'' \<or> logName = ''cerr'' then
              s\<lparr>m_outputP0 := get_log_ostream (log_registry s) logName\<rparr>
            else
              (let s' = bind_output_streams (OpenLog ''log'' logName) s
               in s'\<lparr>m_outputP0 := get_log_ostream (log_registry s') ''log''\<rparr>))
         else s\<lparr>m_outputP0 := Some OutputNull\<rparr>)
      in perform [SetIossOutputStream (m_outputP0 s1)] s1)"

definition print_parse_error :: "exception \<Rightarrow> 'm State \<Rightarrow> 'm event list" where
  "print_parse_error what s = (if m_isProc0 s then [Write StdCerr (what @ endl)] else [])"

definition print_balance_error :: "exception \<Rightarrow> 'm State \<Rightarrow> 'm event list" where
  "print_balance_error what s = (if m_isProc0 s then [Write StdCerr (what @ endl)] else [])"

definition no_op_text :: "Settings \<Rightarrow> string" where
  "no_op_text st =
     ''Running on 1 MPI rank and input-file ('' @ get_input_filename st
       @ '') == output-file ('' @ get_output_filename st
       @ ''), doing nothing. Specify outputDirectory if you ''
       @ ''wish to copy the input-file to an output-file of the same name.'' @ endl"

definition print_no_op_message :: "'m State \<Rightarrow> 'm event list" where
  "print_no_op_message s = through_outputP0 (\<lambda>os. Write os (no_op_text (m_settings s))) s"

definition print_running_message :: "'m State \<Rightarrow> 'm event list" where
  "print_running_message s =
     (if m_isProc0 s then
        (let logName = get_log_filename (m_settings s);
             usingLogFile = (\<not> (logName = ''cout'' \<or> logName = ''cerr''));
             numRanks = parallel_machine_size (m_comm s)
         in [RegisterOstream ''diag_stream'']
            @ (if usingLogFile then
                 [BindOutputStreams (command_text (Redirect ''diag_stream'' ''log'')),
                  BindOutputStreams (command_text (AddDestination ''diag_stream'' ''cout''))]
               else [BindOutputStreams (command_text (Redirect ''diag_stream'' logName))])
            @ [Write DiagStream
                 (''Running stk_balance on '' @ show_int numRanks @ '' MPI ranks'' @ endl)]
            @ (if usingLogFile then [Write DiagStream (''        Log file: '' @ logName @ endl)]
               else [])
            @ [Write DiagStream
                 (''      Input file: '' @ get_input_filename (m_settings s) @ endl),
               Write DiagStream
                 (''    Output files: '' @ get_output_filename (m_settings s) @ ''.''
                    @ show_int numRanks @ ''.*'' @ endl),
               UnregisterOstream ''diag_stream''])
      else [])"

text \<open>The constructor \<^verbatim>\<open>LifeCycle(MPI_Comm c, int argc, const char** argv)\<close>.\<close>

definition LifeCycle :: "'m World \<Rightarrow> MPI_Comm \<Rightarrow> string list \<Rightarrow> 'm State" where
  "LifeCycle w c argv =
     (let s0 = \<lparr>m_comm = c, m_argv = argv, m_exitCode = 0,
                m_isProc0 = (parallel_machine_rank c = 0),
                m_settings = default_settings w,
                m_outputP0 = initial_outputP0 w,
                log_registry = initial_log_registry,
                trace = [InitializeEnvironment]\<rparr> in
      case parse w s0 of
        (Some e, s1) \<Rightarrow> (perform (print_parse_error e s1) s1)\<lparr>m_exitCode := 1\<rparr>
      | (None, s1) \<Rightarrow> set_output_streams s1)"

text \<open>
  \<^verbatim>\<open>run()\<close>. The first component is \<open>None\<close> when the call returns, and the thrown
  value when one leaves the \<^verbatim>\<open>try\<close> block uncaught; the second is the state the call
  leaves either way.
\<close>

definition run :: "'m World \<Rightarrow> 'm State \<Rightarrow> thrown option \<times> 'm State" where
  "run w s =
     (if m_exitCode s \<noteq> 0 then (None, s)
      else
        (let s1 = perform (print_running_message s) s;
             s2 = perform (print_banner s1) s1;
             s3 = perform [SerialInputEqualsOutput (get_input_filename (m_settings s2))
                             (get_output_filename (m_settings s2))] s2
         in if serial_no_op w s3 then (None, perform (print_no_op_message s3) s3)
            else (case balance w s3 of
                    (Some (StdException e), es) \<Rightarrow>
                      (let s4 = perform es s3
                       in (None, (perform (print_balance_error e s4) s4)\<lparr>m_exitCode := 2\<rparr>))
                  | (Some OtherThrown, es) \<Rightarrow> (Some OtherThrown, perform es s3)
                  | (None, es) \<Rightarrow> (None, perform es s3))))"

text \<open>\<^verbatim>\<open>exit_code() const\<close>: the value returned, beside the state the call leaves.\<close>

definition exit_code :: "'m State \<Rightarrow> int \<times> 'm State" where
  "exit_code s = (m_exitCode s, s)"

subsection \<open>Reading a history\<close>

text \<open>The calls of the mesh pipeline: read (initial decomposition), balance, write.\<close>

fun is_pipeline :: "'m event \<Rightarrow> bool" where
  "is_pipeline InitialDecomp = True"
| "is_pipeline (Balance m) = True"
| "is_pipeline (WriteMesh m) = True"
| "is_pipeline e = False"

definition pipeline :: "'m event list \<Rightarrow> 'm event list" where
  "pipeline es = filter is_pipeline es"

text \<open>
  The events that put bytes on a standard stream or a log file: a write to any stream
  but the null sink. (A write to \<^verbatim>\<open>diag_stream\<close> reaches the streams it is routed to.)
\<close>

fun is_output :: "'m event \<Rightarrow> bool" where
  "is_output (Write os t) = (os \<noteq> OutputNull)"
| "is_output (PrintBanner os) = (os \<noteq> OutputNull)"
| "is_output e = False"

definition visible_output :: "'m event list \<Rightarrow> 'm event list" where
  "visible_output es = filter is_output es"

text \<open>The events that open or register a stream or a file.\<close>

fun is_stream_resource :: "'m event \<Rightarrow> bool" where
  "is_stream_resource (RegisterOstream n) = True"
| "is_stream_resource (BindOutputStreams c) = True"
| "is_stream_resource e = False"

definition stream_resources :: "'m event list \<Rightarrow> 'm event list" where
  "stream_resources es = filter is_stream_resource es"

text \<open>
  The texts written to one stream, in order: one for each statement of the source that
  ends in \<^verbatim>\<open>std::endl\<close>.
\<close>

fun lines_to :: "ostream \<Rightarrow> 'm event list \<Rightarrow> string list" where
  "lines_to os [] = []"
| "lines_to os (Write os' t # es) = (if os' = os then t # lines_to os es else lines_to os es)"
| "lines_to os (e # es) = lines_to os es"

text \<open>
  What the pipeline throws in a world: the value thrown by the first of the three steps
  that throws, if any.
\<close>

definition first_failure :: "'m World \<Rightarrow> thrown option" where
  "first_failure w =
     (case initial_decomp w of
        Inl x \<Rightarrow> Some x
      | Inr mesh \<Rightarrow>
          (case balancer_balance w mesh of
             Inl x \<Rightarrow> Some x
           | Inr mesh' \<Rightarrow> io_write w mesh'))"

text \<open>The number of line ends in a text: the number of lines it puts on a stream.\<close>

definition count_line_ends :: "string \<Rightarrow> nat" where
  "count_line_ends text = length (filter (\<lambda>ch. ch = CHR 0x0A) text)"

text \<open>The events a call added to the history of the state it started from.\<close>

definition added :: "'m State \<Rightarrow> 'm State \<Rightarrow> 'm event list" where
  "added s s' = drop (length (trace s)) (trace s')"

subsection \<open>Concrete processes\<close>

text \<open>
  Worlds, settings and communicators for running the model on concrete inputs. The mesh
  handle is a number; the canonical form of a path is the path itself.
\<close>

definition scenario :: "(exception + Settings) \<Rightarrow> bool \<Rightarrow> (thrown + nat) \<Rightarrow> (thrown + nat)
    \<Rightarrow> thrown option \<Rightarrow> nat World" where
  "scenario parsed found decomposed balanced written =
     \<lparr>parse_command_line_options = (\<lambda>argv st. parsed),
      file_exists = (\<lambda>path. found),
      file_missing_what = (\<lambda>path. ''no such file: '' @ path),
      canonical_path = (\<lambda>path. path),
      initial_decomp = decomposed,
      balancer_balance = (\<lambda>mesh. balanced),
      io_write = (\<lambda>mesh. written),
      default_settings = \<lparr>get_input_filename = [], get_output_filename = [], get_log_filename = []\<rparr>,
      initial_outputP0 = Some StdCout\<rparr>"

definition settings_of :: "string \<Rightarrow> string \<Rightarrow> string \<Rightarrow> Settings" where
  "settings_of inp outp logName =
     \<lparr>get_input_filename = inp, get_output_filename = outp, get_log_filename = logName\<rparr>"

definition comm_of :: "int \<Rightarrow> int \<Rightarrow> MPI_Comm" where
  "comm_of r n = \<lparr>comm_rank = r, comm_size = n\<rparr>"

text \<open>A \<^verbatim>\<open>what()\<close> of two lines.\<close>

definition two_line_message :: string where
  "two_line_message = ''disk full'' @ endl @ ''while writing out/mesh.g''"

section \<open>Properties\<close>

subsection \<open>Histories and members under the member functions\<close>

lemma perform_fields [simp]:
  "trace (perform es s) = trace s @ es"
  "m_exitCode (perform es s) = m_exitCode s"
  "m_isProc0 (perform es s) = m_isProc0 s"
  "m_settings (perform es s) = m_settings s"
  "m_comm (perform es s) = m_comm s"
  "m_argv (perform es s) = m_argv s"
  "m_outputP0 (perform es s) = m_outputP0 s"
  "log_registry (perform es s) = log_registry s"
  by (simp_all add: perform_def)

lemma perform_perform [simp]: "perform es' (perform es s) = perform (es @ es') s"
  by (simp add: perform_def)

lemma perform_retrace: "perform es (s\<lparr>trace := t\<rparr>) = s\<lparr>trace := t @ es\<rparr>"
  by (simp add: perform_def)

lemma printers_ignore_history [simp]:
  "print_running_message (perform es s) = print_running_message s"
  "print_banner (perform es s) = print_banner s"
  "print_no_op_message (perform es s) = print_no_op_message s"
  "print_balance_error e (perform es s) = print_balance_error e s"
  "serial_no_op w (perform es s) = serial_no_op w s"
  "balance w (perform es s) = balance w s"
  by (simp_all add: print_running_message_def print_banner_def print_no_op_message_def
      print_balance_error_def serial_no_op_def balance_def through_outputP0_def)

lemma printers_ignore_trace [simp]:
  "print_running_message (s\<lparr>trace := t\<rparr>) = print_running_message s"
  "print_banner (s\<lparr>trace := t\<rparr>) = print_banner s"
  "print_no_op_message (s\<lparr>trace := t\<rparr>) = print_no_op_message s"
  "print_balance_error e (s\<lparr>trace := t\<rparr>) = print_balance_error e s"
  "serial_no_op w (s\<lparr>trace := t\<rparr>) = serial_no_op w s"
  "balance w (s\<lparr>trace := t\<rparr>) = balance w s"
  by (simp_all add: print_running_message_def print_banner_def print_no_op_message_def
      print_balance_error_def serial_no_op_def balance_def through_outputP0_def)

text \<open>The four ways through \<^verbatim>\<open>run\<close> once the exit code is 0.\<close>

lemma run_no_op:
  assumes "m_exitCode s = 0" and "serial_no_op w s"
  shows "run w s = (None, perform (print_running_message s @ print_banner s
           @ [SerialInputEqualsOutput (get_input_filename (m_settings s)) (get_output_filename (m_settings s))]
           @ print_no_op_message s) s)"
  using assms by (simp add: run_def Let_def)

lemma run_balanced:
  assumes "m_exitCode s = 0" and "\<not> serial_no_op w s" and "balance w s = (None, es)"
  shows "run w s = (None, perform (print_running_message s @ print_banner s
           @ [SerialInputEqualsOutput (get_input_filename (m_settings s)) (get_output_filename (m_settings s))]
           @ es) s)"
  using assms by (simp add: run_def Let_def)

lemma run_balance_failed:
  assumes "m_exitCode s = 0" and "\<not> serial_no_op w s" and "balance w s = (Some (StdException e), es)"
  shows "run w s = (None, (perform (print_running_message s @ print_banner s
           @ [SerialInputEqualsOutput (get_input_filename (m_settings s)) (get_output_filename (m_settings s))]
           @ es @ print_balance_error e s) s)\<lparr>m_exitCode := 2\<rparr>)"
  using assms by (simp add: run_def Let_def)

lemma run_not_caught:
  assumes "m_exitCode s = 0" and "\<not> serial_no_op w s" and "balance w s = (Some OtherThrown, es)"
  shows "run w s = (Some OtherThrown, perform (print_running_message s @ print_banner s
           @ [SerialInputEqualsOutput (get_input_filename (m_settings s)) (get_output_filename (m_settings s))]
           @ es) s)"
  using assms by (simp add: run_def Let_def)

lemma scenario_fields [simp]:
  "parse_command_line_options (scenario p f d b wr) argv st = p"
  "file_exists (scenario p f d b wr) path = f"
  "file_missing_what (scenario p f d b wr) path = ''no such file: '' @ path"
  "canonical_path (scenario p f d b wr) path = path"
  "initial_decomp (scenario p f d b wr) = d"
  "balancer_balance (scenario p f d b wr) mesh = b"
  "io_write (scenario p f d b wr) mesh = wr"
  by (simp_all add: scenario_def)

lemma settings_of_fields [simp]:
  "get_input_filename (settings_of i ou l) = i"
  "get_output_filename (settings_of i ou l) = ou"
  "get_log_filename (settings_of i ou l) = l"
  by (simp_all add: settings_of_def)

lemma comm_of_fields [simp]:
  "comm_rank (comm_of r n) = r" "comm_size (comm_of r n) = n"
  by (simp_all add: comm_of_def)

lemma LifeCycle_failed:
  assumes "(\<exists>e. parse_command_line_options w argv (default_settings w) = Inl e)
     \<or> (\<exists>st. parse_command_line_options w argv (default_settings w) = Inr st
            \<and> \<not> file_exists w (get_input_filename st))"
  shows "m_exitCode (LifeCycle w c argv) = 1"
  using assms
  by (auto simp: LifeCycle_def parse_def Let_def require_file_exists_def)

lemma set_output_streams_fields [simp]:
  "m_exitCode (set_output_streams s) = m_exitCode s"
  "m_isProc0 (set_output_streams s) = m_isProc0 s"
  "m_settings (set_output_streams s) = m_settings s"
  "m_comm (set_output_streams s) = m_comm s"
  "m_argv (set_output_streams s) = m_argv s"
  by (simp_all add: set_output_streams_def bind_output_streams_def Let_def)

lemma set_output_streams_trace:
  "trace (set_output_streams s) = trace s
     @ (if m_isProc0 s \<and> \<not> (get_log_filename (m_settings s) = ''cout'' \<or> get_log_filename (m_settings s) = ''cerr'')
        then [BindOutputStreams (command_text (OpenLog ''log'' (get_log_filename (m_settings s))))] else [])
     @ [SetIossOutputStream (m_outputP0 (set_output_streams s))]"
  by (simp add: set_output_streams_def bind_output_streams_def Let_def)

lemma LifeCycle_parsed:
  assumes "parse_command_line_options w argv (default_settings w) = Inr st"
      and "file_exists w (get_input_filename st)"
  shows "LifeCycle w c argv = set_output_streams
           \<lparr>m_comm = c, m_argv = argv, m_exitCode = 0,
            m_isProc0 = (parallel_machine_rank c = 0),
            m_settings = st,
            m_outputP0 = initial_outputP0 w,
            log_registry = initial_log_registry,
            trace = [InitializeEnvironment, ParseCommandLineOptions argv,
                     RequireFileExists (get_input_filename st)]\<rparr>"
  using assms
  by (simp add: LifeCycle_def parse_def Let_def require_file_exists_def perform_def)

lemma LifeCycle_parsed_fields:
  assumes "parse_command_line_options w argv (default_settings w) = Inr st"
      and "file_exists w (get_input_filename st)"
  shows "m_exitCode (LifeCycle w c argv) = 0"
    and "m_settings (LifeCycle w c argv) = st"
    and "m_comm (LifeCycle w c argv) = c"
    and "m_isProc0 (LifeCycle w c argv) = (comm_rank c = 0)"
    and "pipeline (trace (LifeCycle w c argv)) = []"
  by (simp_all add: LifeCycle_parsed [OF assms] set_output_streams_trace pipeline_def
      parallel_machine_rank_def)

lemma pipeline_append [simp]: "pipeline (xs @ ys) = pipeline xs @ pipeline ys"
  by (simp add: pipeline_def)

lemma pipeline_printers [simp]:
  "pipeline (print_running_message s) = []"
  "pipeline (print_banner s) = []"
  "pipeline (print_no_op_message s) = []"
  "pipeline (print_balance_error e s) = []"
  "pipeline (print_parse_error e s) = []"
  by (simp_all add: pipeline_def print_running_message_def print_banner_def print_no_op_message_def
      print_balance_error_def print_parse_error_def through_outputP0_def Let_def split: option.splits)

lemma pipeline_simps [simp]:
  "pipeline [] = []"
  "pipeline (e # es) = (if is_pipeline e then e # pipeline es else pipeline es)"
  by (simp_all add: pipeline_def)

lemma visible_output_append [simp]: "visible_output (xs @ ys) = visible_output xs @ visible_output ys"
  by (simp add: visible_output_def)

lemma visible_output_simps [simp]:
  "visible_output [] = []"
  "visible_output (e # es) = (if is_output e then e # visible_output es else visible_output es)"
  by (simp_all add: visible_output_def)

lemma added_append: "trace s' = trace s @ es \<Longrightarrow> added s s' = es"
  by (simp add: added_def)

lemma balance_events:
  "visible_output (snd (balance w s)) = []"
  "stream_resources (snd (balance w s)) = []"
  by (simp_all add: balance_def Let_def stream_resources_def split: sum.splits)

lemma run_cases:
  assumes "m_exitCode s = 0"
  obtains (no_op) "serial_no_op w s"
  | (balanced) es where "\<not> serial_no_op w s" "balance w s = (None, es)"
  | (failed) e es where "\<not> serial_no_op w s" "balance w s = (Some (StdException e), es)"
  | (not_caught) es where "\<not> serial_no_op w s" "balance w s = (Some OtherThrown, es)"
proof (cases "serial_no_op w s")
  case True
  then show ?thesis by (rule no_op)
next
  case False
  obtain r es where b: "balance w s = (r, es)" by (cases "balance w s")
  show ?thesis
  proof (cases r)
    case None
    with b False show ?thesis by (intro balanced) simp_all
  next
    case (Some x)
    with b False show ?thesis by (cases x) (auto intro: failed not_caught)
  qed
qed

lemma run_trace:
  assumes "m_exitCode s = 0"
  shows "trace (snd (run w s)) = trace s @ print_running_message s @ print_banner s
      @ [SerialInputEqualsOutput (get_input_filename (m_settings s)) (get_output_filename (m_settings s))]
      @ (if serial_no_op w s then print_no_op_message s
         else snd (balance w s)
            @ (case fst (balance w s) of
                 Some (StdException e) \<Rightarrow> print_balance_error e s
               | Some OtherThrown \<Rightarrow> []
               | None \<Rightarrow> []))"
  by (cases rule: run_cases [OF assms, of w])
     (simp_all add: run_no_op [OF assms] run_balanced [OF assms] run_balance_failed [OF assms]
        run_not_caught [OF assms] assms)

lemma run_exit_code:
  assumes "m_exitCode s = 0"
  shows "m_exitCode (snd (run w s)) =
           (if serial_no_op w s then 0
            else case fst (balance w s) of
                   Some (StdException e) \<Rightarrow> 2
                 | Some OtherThrown \<Rightarrow> 0
                 | None \<Rightarrow> 0)"
  by (cases rule: run_cases [OF assms, of w])
     (simp_all add: run_no_op [OF assms] run_balanced [OF assms] run_balance_failed [OF assms]
        run_not_caught [OF assms] assms)

lemma run_returns:
  assumes "m_exitCode s = 0"
  shows "fst (run w s) =
           (if serial_no_op w s then None
            else case fst (balance w s) of
                   Some (StdException e) \<Rightarrow> None
                 | Some OtherThrown \<Rightarrow> Some OtherThrown
                 | None \<Rightarrow> None)"
  by (cases rule: run_cases [OF assms, of w])
     (simp_all add: run_no_op [OF assms] run_balanced [OF assms] run_balance_failed [OF assms]
        run_not_caught [OF assms] assms)

lemma run_gated: "m_exitCode s \<noteq> 0 \<Longrightarrow> run w s = (None, s)"
  by (simp add: run_def)

lemma run_members [simp]:
  "m_isProc0 (snd (run w s)) = m_isProc0 s"
  "m_settings (snd (run w s)) = m_settings s"
  "m_comm (snd (run w s)) = m_comm s"
  "m_argv (snd (run w s)) = m_argv s"
  "m_outputP0 (snd (run w s)) = m_outputP0 s"
  "log_registry (snd (run w s)) = log_registry s"
  by (simp_all add: run_def Let_def split: prod.splits option.splits thrown.splits)

lemma LifeCycle_malformed:
  assumes "parse_command_line_options w argv (default_settings w) = Inl e"
  shows "trace (LifeCycle w c argv) = [InitializeEnvironment, ParseCommandLineOptions argv]
           @ (if comm_rank c = 0 then [Write StdCerr (e @ endl)] else [])"
  using assms
  by (simp add: LifeCycle_def parse_def Let_def print_parse_error_def parallel_machine_rank_def)

lemma LifeCycle_missing:
  assumes "parse_command_line_options w argv (default_settings w) = Inr st"
      and "\<not> file_exists w (get_input_filename st)"
  shows "trace (LifeCycle w c argv) =
           [InitializeEnvironment, ParseCommandLineOptions argv, RequireFileExists (get_input_filename st)]
           @ (if comm_rank c = 0
              then [Write StdCerr (file_missing_what w (get_input_filename st) @ endl)] else [])"
  using assms
  by (simp add: LifeCycle_def parse_def Let_def print_parse_error_def parallel_machine_rank_def
      require_file_exists_def)

lemma LifeCycle_parsed_outputP0:
  assumes "parse_command_line_options w argv (default_settings w) = Inr st"
      and "file_exists w (get_input_filename st)"
  shows "m_outputP0 (LifeCycle w c argv) =
           Some (if comm_rank c = 0
                 then (if get_log_filename st = ''cout'' then StdCout
                       else if get_log_filename st = ''cerr'' then StdCerr
                       else LogFile (get_log_filename st))
                 else OutputNull)"
  by (simp add: LifeCycle_parsed [OF assms] set_output_streams_def bind_output_streams_def Let_def
      get_log_ostream_def initial_log_registry_def parallel_machine_rank_def)

lemma LifeCycle_parsed_trace:
  assumes "parse_command_line_options w argv (default_settings w) = Inr st"
      and "file_exists w (get_input_filename st)"
  shows "trace (LifeCycle w c argv) =
           [InitializeEnvironment, ParseCommandLineOptions argv, RequireFileExists (get_input_filename st)]
           @ (if comm_rank c = 0 \<and> \<not> (get_log_filename st = ''cout'' \<or> get_log_filename st = ''cerr'')
              then [BindOutputStreams (command_text (OpenLog ''log'' (get_log_filename st)))] else [])
           @ [SetIossOutputStream (m_outputP0 (LifeCycle w c argv))]"
  by (simp add: LifeCycle_parsed [OF assms, symmetric] LifeCycle_parsed [OF assms] set_output_streams_trace parallel_machine_rank_def)

lemma printers_not_root:
  assumes "\<not> m_isProc0 s" and "m_outputP0 s = Some OutputNull"
  shows "visible_output (print_running_message s) = []"
    and "visible_output (print_banner s) = []"
    and "visible_output (print_no_op_message s) = []"
    and "visible_output (print_balance_error e s) = []"
  using assms
  by (simp_all add: print_running_message_def print_banner_def print_no_op_message_def
      print_balance_error_def through_outputP0_def)

lemma lines_to_append [simp]: "lines_to os (xs @ ys) = lines_to os xs @ lines_to os ys"
  by (induction os xs rule: lines_to.induct) simp_all

lemma stream_resources_append [simp]:
  "stream_resources (xs @ ys) = stream_resources xs @ stream_resources ys"
  by (simp add: stream_resources_def)

lemma stream_resources_simps [simp]:
  "stream_resources [] = []"
  "stream_resources (e # es) = (if is_stream_resource e then e # stream_resources es else stream_resources es)"
  by (simp_all add: stream_resources_def)

lemma printers_after_run [simp]:
  "print_running_message (snd (run w s)) = print_running_message s"
  "print_banner (snd (run w s)) = print_banner s"
  "print_no_op_message (snd (run w s)) = print_no_op_message s"
  "print_balance_error e (snd (run w s)) = print_balance_error e s"
  "serial_no_op w' (snd (run w s)) = serial_no_op w' s"
  "balance w' (snd (run w s)) = balance w' s"
  by (simp_all add: print_running_message_def print_banner_def print_no_op_message_def
      print_balance_error_def serial_no_op_def balance_def through_outputP0_def)

lemma run_added:
  assumes "m_exitCode s = 0"
  shows "added s (snd (run w s)) = print_running_message s @ print_banner s
      @ [SerialInputEqualsOutput (get_input_filename (m_settings s)) (get_output_filename (m_settings s))]
      @ (if serial_no_op w s then print_no_op_message s
         else snd (balance w s)
            @ (case fst (balance w s) of
                 Some (StdException e) \<Rightarrow> print_balance_error e s
               | Some OtherThrown \<Rightarrow> []
               | None \<Rightarrow> []))"
  by (rule added_append) (simp add: run_trace [OF assms])

lemma lines_to_diag_others:
  "lines_to DiagStream (print_balance_error e s) = []"
  "lines_to DiagStream (snd (balance w s)) = []"
  by (simp_all add: print_balance_error_def balance_def Let_def split: sum.splits)

lemma lines_to_diag_outputP0:
  assumes "m_outputP0 s \<noteq> Some DiagStream"
  shows "lines_to DiagStream (print_banner s) = []"
    and "lines_to DiagStream (print_no_op_message s) = []"
  using assms
  by (simp_all add: print_banner_def print_no_op_message_def through_outputP0_def split: option.splits)

lemma printers_open_nothing:
  "stream_resources (print_banner s) = []"
  "stream_resources (print_no_op_message s) = []"
  "stream_resources (print_balance_error e s) = []"
  "\<not> m_isProc0 s \<Longrightarrow> stream_resources (print_running_message s) = []"
  by (simp_all add: print_banner_def print_no_op_message_def print_balance_error_def
      print_running_message_def through_outputP0_def split: option.splits)

subsection \<open>What \<open>show_int\<close> prints is the decimal numeral of its argument\<close>

lemma digit_round_trip: "d < 10 \<Longrightarrow> digit_value (digit_char d) = d"
proof -
  assume "d < 10"
  then have "d \<in> {0, 1, 2, 3, 4, 5, 6, 7, 8, 9}" by auto
  then show ?thesis
    by (auto simp: digit_value_def digit_char_def)
qed

lemma digit_not_minus: "d < 10 \<Longrightarrow> digit_char d \<noteq> CHR ''-''"
proof -
  assume "d < 10"
  then have "d \<in> {0, 1, 2, 3, 4, 5, 6, 7, 8, 9}" by auto
  then show ?thesis
    by (auto simp: digit_char_def)
qed

lemma read_nat_snoc: "read_nat (cs @ [c]) = 10 * read_nat cs + digit_value c"
  by (simp add: read_nat_def)

lemma read_show_nat: "read_nat (show_nat n) = n"
proof (induction n rule: show_nat.induct)
  case (1 n)
  show ?case
  proof (cases "n < 10")
    case True
    then show ?thesis
      by (simp add: show_nat.simps [of n] read_nat_def digit_round_trip)
  next
    case False
    with 1 have "read_nat (show_nat (n div 10)) = n div 10" by simp
    with False show ?thesis
      by (simp add: show_nat.simps [of n] read_nat_snoc digit_round_trip)
  qed
qed

lemma show_nat_hd: "\<exists>d cs. d < 10 \<and> show_nat n = digit_char d # cs"
proof (induction n rule: show_nat.induct)
  case (1 n)
  show ?case
  proof (cases "n < 10")
    case True
    then show ?thesis by (auto simp: show_nat.simps [of n])
  next
    case False
    with 1 obtain d cs where "d < 10" "show_nat (n div 10) = digit_char d # cs" by auto
    with False show ?thesis by (auto simp: show_nat.simps [of n])
  qed
qed

lemma read_show_int: "read_int (show_int i) = i"
proof (cases "i < 0")
  case True
  then show ?thesis
    by (simp add: show_int_def read_int_def read_show_nat)
next
  case False
  obtain d cs where d: "d < 10" "show_nat (nat i) = digit_char d # cs"
    using show_nat_hd by blast
  have "read_nat (digit_char d # cs) = nat i"
    using read_show_nat [of "nat i"] d(2) by simp
  with False d show ?thesis
    by (simp add: show_int_def read_int_def digit_not_minus)
qed

lemma balance_throws_first_failure: "fst (balance w s) = first_failure w"
  by (simp add: balance_def first_failure_def Let_def split: sum.splits)

lemma count_list_printers:
  "count_list (print_running_message s) (SerialInputEqualsOutput a b) = 0"
  "count_list (print_banner s) (SerialInputEqualsOutput a b) = 0"
  "count_list (print_no_op_message s) (SerialInputEqualsOutput a b) = 0"
  "count_list (print_balance_error e s) (SerialInputEqualsOutput a b) = 0"
  by (simp_all add: print_running_message_def print_banner_def print_no_op_message_def
      print_balance_error_def through_outputP0_def Let_def split: option.splits)

lemma count_list_balance:
  "count_list (snd (balance w s)) (SerialInputEqualsOutput a b) = 0"
  by (simp add: balance_def Let_def split: sum.splits)

subsection \<open>Claims\<close>

text \<open>
  C1. When the argument list is malformed (the parser throws), or it is well formed and the
  input path does not resolve to an existing file (the validator throws), the exit code
  after construction is 1, and a later \<^verbatim>\<open>run()\<close>, whatever the collaborators would
  answer, returns at once with the state it was given: the history is the same, so no
  collaborator was called and nothing was written.
\<close>

theorem failed_construction_exit_1_run_no_op:
  assumes "(\<exists>e. parse_command_line_options w argv (default_settings w) = Inl e)
     \<or> (\<exists>st. parse_command_line_options w argv (default_settings w) = Inr st
            \<and> \<not> file_exists w (get_input_filename st))"
  shows "fst (exit_code (LifeCycle w c argv)) = 1
     \<and> run w' (LifeCycle w c argv) = (None, LifeCycle w c argv)"
proof -
  have "m_exitCode (LifeCycle w c argv) = 1"
    using assms by (rule LifeCycle_failed)
  then show ?thesis
    by (simp add: exit_code_def run_def)
qed

theorem failed_construction_exit_1_run_no_op_witness:
  "fst (exit_code
      (LifeCycle (scenario (Inl ''unrecognised option'') True (Inr 0) (Inr 0) None)
        (comm_of 0 4) [''stk_balance'', ''--bogus''])) = 1
   \<and> run (scenario (Inr (settings_of ''mesh.g'' ''out/mesh.g'' ''cout'')) True (Inr 0) (Inr 0) None)
       (LifeCycle (scenario (Inl ''unrecognised option'') True (Inr 0) (Inr 0) None)
         (comm_of 0 4) [''stk_balance'', ''--bogus''])
     = (None, LifeCycle (scenario (Inl ''unrecognised option'') True (Inr 0) (Inr 0) None)
           (comm_of 0 4) [''stk_balance'', ''--bogus''])
   \<and> fst (exit_code
       (LifeCycle (scenario (Inr (settings_of ''mesh.g'' ''out/mesh.g'' ''cout'')) False (Inr 0) (Inr 0) None)
         (comm_of 1 4) [''stk_balance'', ''mesh.g''])) = 1"
  using failed_construction_exit_1_run_no_op [of "scenario (Inl ''unrecognised option'') True (Inr 0) (Inr 0) None"
              "[''stk_balance'', ''--bogus'']" "comm_of 0 4"
              "scenario (Inr (settings_of ''mesh.g'' ''out/mesh.g'' ''cout'')) True (Inr 0) (Inr 0) None"]
        failed_construction_exit_1_run_no_op [of "scenario (Inr (settings_of ''mesh.g'' ''out/mesh.g'' ''cout'')) False (Inr 0) (Inr 0) None"
              "[''stk_balance'', ''mesh.g'']" "comm_of 1 4"]
  by simp

text \<open>
  C2. After a successful parse, on a communicator of size 1 and with input and output paths
  of the same canonical form, \<^verbatim>\<open>run()\<close> returns with exit code 0 and its history
  holds no call of the mesh pipeline: no read, no balance, no write.
\<close>

theorem serial_no_op_skips_pipeline:
  assumes "parse_command_line_options w argv (default_settings w) = Inr st"
      and "file_exists w (get_input_filename st)"
      and "comm_size c = 1"
      and "canonical_path w (get_input_filename st) = canonical_path w (get_output_filename st)"
  shows "fst (exit_code (snd (run w (LifeCycle w c argv)))) = 0
     \<and> pipeline (trace (snd (run w (LifeCycle w c argv)))) = []
     \<and> fst (run w (LifeCycle w c argv)) = None"
proof -
  note f = LifeCycle_parsed_fields [OF assms(1,2), of c]
  have "serial_no_op w (LifeCycle w c argv)"
    using assms(3,4) by (simp add: serial_no_op_def serial_input_equals_output_def f
        parallel_machine_size_def)
  then show ?thesis
    by (simp add: run_no_op f exit_code_def)
qed

theorem serial_no_op_skips_pipeline_witness:
  "fst (exit_code
      (snd
      (run (scenario (Inr (settings_of ''mesh.g'' ''mesh.g'' ''cout'')) True (Inr 0) (Inr 1) None)
      (LifeCycle (scenario (Inr (settings_of ''mesh.g'' ''mesh.g'' ''cout'')) True (Inr 0) (Inr 1) None)
        (comm_of 0 1) [''stk_balance'', ''mesh.g''])))) = 0
   \<and> pipeline (trace
       (snd
       (run (scenario (Inr (settings_of ''mesh.g'' ''mesh.g'' ''cout'')) True (Inr 0) (Inr 1) None)
       (LifeCycle (scenario (Inr (settings_of ''mesh.g'' ''mesh.g'' ''cout'')) True (Inr 0) (Inr 1) None)
         (comm_of 0 1) [''stk_balance'', ''mesh.g''])))) = []"
  using serial_no_op_skips_pipeline [of "scenario (Inr (settings_of ''mesh.g'' ''mesh.g'' ''cout'')) True (Inr 0) (Inr 1) None"
      "[''stk_balance'', ''mesh.g'']" "settings_of ''mesh.g'' ''mesh.g'' ''cout''" "comm_of 0 1"]
  by simp

text \<open>
  C3. After a successful parse, when the canonical input path differs from the canonical
  output path (on a communicator of any size) and the three steps succeed, \<^verbatim>\<open>run()\<close>
  calls the read (initial decomposition), the balance and the write once each, in that
  order, the balance on the mesh the read returned and the write on the balanced mesh, and
  returns with exit code 0.
\<close>

theorem run_reads_balances_writes_in_order:
  assumes "parse_command_line_options w argv (default_settings w) = Inr st"
      and "file_exists w (get_input_filename st)"
      and "canonical_path w (get_input_filename st) \<noteq> canonical_path w (get_output_filename st)"
      and "initial_decomp w = Inr mesh"
      and "balancer_balance w mesh = Inr mesh'"
      and "io_write w mesh' = None"
  shows "pipeline (trace (snd (run w (LifeCycle w c argv)))) = [InitialDecomp, Balance mesh, WriteMesh mesh']
     \<and> fst (exit_code (snd (run w (LifeCycle w c argv)))) = 0
     \<and> fst (run w (LifeCycle w c argv)) = None"
proof -
  note f = LifeCycle_parsed_fields [OF assms(1,2), of c]
  have n: "\<not> serial_no_op w (LifeCycle w c argv)"
    using assms(3) by (simp add: serial_no_op_def serial_input_equals_output_def f)
  have b: "balance w (LifeCycle w c argv) =
      (None, [NewBalanceIO c st, NewBalancer st, InitialDecomp, Balance mesh, WriteMesh mesh'])"
    using assms(4-6) by (simp add: balance_def f)
  show ?thesis
    by (simp add: run_balanced [OF f(1) n b] f exit_code_def)
qed

theorem run_reads_balances_writes_in_order_witness:
  "pipeline (trace
      (snd
      (run (scenario (Inr (settings_of ''mesh.g'' ''out/mesh.g'' ''cout'')) True (Inr 7) (Inr 8) None)
      (LifeCycle (scenario (Inr (settings_of ''mesh.g'' ''out/mesh.g'' ''cout'')) True (Inr 7) (Inr 8) None)
        (comm_of 2 4) [''stk_balance'', ''mesh.g'', ''out''])))) = [InitialDecomp, Balance 7, WriteMesh 8]
   \<and> fst (exit_code
       (snd
       (run (scenario (Inr (settings_of ''mesh.g'' ''out/mesh.g'' ''cout'')) True (Inr 7) (Inr 8) None)
       (LifeCycle (scenario (Inr (settings_of ''mesh.g'' ''out/mesh.g'' ''cout'')) True (Inr 7) (Inr 8) None)
         (comm_of 2 4) [''stk_balance'', ''mesh.g'', ''out''])))) = 0"
  using run_reads_balances_writes_in_order [of "scenario (Inr (settings_of ''mesh.g'' ''out/mesh.g'' ''cout'')) True (Inr 7) (Inr 8) None"
      "[''stk_balance'', ''mesh.g'', ''out'']" "settings_of ''mesh.g'' ''out/mesh.g'' ''cout''" 7 8 "comm_of 2 4"]
  by simp

text \<open>
  C4, as amended. After a successful parse and outside the serial no-op, when the read, the
  balance or the write throws an exception derived from \<^verbatim>\<open>std::exception\<close>,
  \<^verbatim>\<open>run()\<close> catches it and returns, the exit code is 2, and the pipeline calls of
  the history are exactly the steps up to the one that threw, each once: nothing after a
  failed read, no write after a failed balance, and no step a second time.
\<close>

theorem std_exception_in_pipeline_caught_exit_2:
  assumes "parse_command_line_options w argv (default_settings w) = Inr st"
      and "file_exists w (get_input_filename st)"
      and "\<not> serial_input_equals_output w c (get_input_filename st) (get_output_filename st)"
  shows "(initial_decomp w = Inl (StdException e) \<longrightarrow>
            fst (run w (LifeCycle w c argv)) = None
          \<and> fst (exit_code (snd (run w (LifeCycle w c argv)))) = 2
          \<and> pipeline (trace (snd (run w (LifeCycle w c argv)))) = [InitialDecomp])
     \<and> (initial_decomp w = Inr mesh \<and> balancer_balance w mesh = Inl (StdException e) \<longrightarrow>
            fst (run w (LifeCycle w c argv)) = None
          \<and> fst (exit_code (snd (run w (LifeCycle w c argv)))) = 2
          \<and> pipeline (trace (snd (run w (LifeCycle w c argv)))) = [InitialDecomp, Balance mesh])
     \<and> (initial_decomp w = Inr mesh \<and> balancer_balance w mesh = Inr mesh' \<and> io_write w mesh' = Some (StdException e) \<longrightarrow>
            fst (run w (LifeCycle w c argv)) = None
          \<and> fst (exit_code (snd (run w (LifeCycle w c argv)))) = 2
          \<and> pipeline (trace (snd (run w (LifeCycle w c argv)))) = [InitialDecomp, Balance mesh, WriteMesh mesh'])"
proof -
  note f = LifeCycle_parsed_fields [OF assms(1,2), of c]
  have n: "\<not> serial_no_op w (LifeCycle w c argv)"
    using assms(3) by (simp add: serial_no_op_def f)
  have r: "fst (run w (LifeCycle w c argv)) = None
         \<and> fst (exit_code (snd (run w (LifeCycle w c argv)))) = 2
         \<and> pipeline (trace (snd (run w (LifeCycle w c argv)))) = pipeline es"
    if "balance w (LifeCycle w c argv) = (Some (StdException e), es)" for es
    by (simp add: run_balance_failed [OF f(1) n that] f exit_code_def)
  show ?thesis
  proof (intro conjI impI)
    assume "initial_decomp w = Inl (StdException e)"
    then have "balance w (LifeCycle w c argv) =
        (Some (StdException e), [NewBalanceIO c st, NewBalancer st, InitialDecomp])"
      by (simp add: balance_def f)
    from r [OF this] show "fst (run w (LifeCycle w c argv)) = None"
      and "fst (exit_code (snd (run w (LifeCycle w c argv)))) = 2"
      and "pipeline (trace (snd (run w (LifeCycle w c argv)))) = [InitialDecomp]"
      by simp_all
  next
    assume "initial_decomp w = Inr mesh \<and> balancer_balance w mesh = Inl (StdException e)"
    then have "balance w (LifeCycle w c argv) =
        (Some (StdException e), [NewBalanceIO c st, NewBalancer st, InitialDecomp, Balance mesh])"
      by (simp add: balance_def f)
    from r [OF this] show "fst (run w (LifeCycle w c argv)) = None"
      and "fst (exit_code (snd (run w (LifeCycle w c argv)))) = 2"
      and "pipeline (trace (snd (run w (LifeCycle w c argv)))) = [InitialDecomp, Balance mesh]"
      by simp_all
  next
    assume "initial_decomp w = Inr mesh \<and> balancer_balance w mesh = Inr mesh' \<and> io_write w mesh' = Some (StdException e)"
    then have "balance w (LifeCycle w c argv) =
        (Some (StdException e), [NewBalanceIO c st, NewBalancer st, InitialDecomp, Balance mesh, WriteMesh mesh'])"
      by (simp add: balance_def f)
    from r [OF this] show "fst (run w (LifeCycle w c argv)) = None"
      and "fst (exit_code (snd (run w (LifeCycle w c argv)))) = 2"
      and "pipeline (trace (snd (run w (LifeCycle w c argv)))) = [InitialDecomp, Balance mesh, WriteMesh mesh']"
      by simp_all
  qed
qed

theorem std_exception_in_pipeline_caught_exit_2_witness:
  "fst
      (run (scenario (Inr (settings_of ''mesh.g'' ''out/mesh.g'' ''cout'')) True (Inl (StdException ''cannot open mesh.g'')) (Inr 8) None)
      (LifeCycle (scenario (Inr (settings_of ''mesh.g'' ''out/mesh.g'' ''cout'')) True (Inl (StdException ''cannot open mesh.g'')) (Inr 8) None)
        (comm_of 0 4) [''stk_balance'', ''mesh.g'', ''out''])) = None
   \<and> fst (exit_code
       (snd
       (run (scenario (Inr (settings_of ''mesh.g'' ''out/mesh.g'' ''cout'')) True (Inl (StdException ''cannot open mesh.g'')) (Inr 8) None)
       (LifeCycle (scenario (Inr (settings_of ''mesh.g'' ''out/mesh.g'' ''cout'')) True (Inl (StdException ''cannot open mesh.g'')) (Inr 8) None)
         (comm_of 0 4) [''stk_balance'', ''mesh.g'', ''out''])))) = 2
   \<and> pipeline (trace
       (snd
       (run (scenario (Inr (settings_of ''mesh.g'' ''out/mesh.g'' ''cout'')) True (Inl (StdException ''cannot open mesh.g'')) (Inr 8) None)
       (LifeCycle (scenario (Inr (settings_of ''mesh.g'' ''out/mesh.g'' ''cout'')) True (Inl (StdException ''cannot open mesh.g'')) (Inr 8) None)
         (comm_of 0 4) [''stk_balance'', ''mesh.g'', ''out''])))) = [InitialDecomp]
   \<and> fst
       (run (scenario (Inr (settings_of ''mesh.g'' ''out/mesh.g'' ''cout'')) True (Inr 7) (Inl (StdException ''partitioner failed'')) None)
       (LifeCycle (scenario (Inr (settings_of ''mesh.g'' ''out/mesh.g'' ''cout'')) True (Inr 7) (Inl (StdException ''partitioner failed'')) None)
         (comm_of 0 4) [''stk_balance'', ''mesh.g'', ''out''])) = None
   \<and> fst (exit_code
       (snd
       (run (scenario (Inr (settings_of ''mesh.g'' ''out/mesh.g'' ''cout'')) True (Inr 7) (Inl (StdException ''partitioner failed'')) None)
       (LifeCycle (scenario (Inr (settings_of ''mesh.g'' ''out/mesh.g'' ''cout'')) True (Inr 7) (Inl (StdException ''partitioner failed'')) None)
         (comm_of 0 4) [''stk_balance'', ''mesh.g'', ''out''])))) = 2
   \<and> pipeline (trace
       (snd
       (run (scenario (Inr (settings_of ''mesh.g'' ''out/mesh.g'' ''cout'')) True (Inr 7) (Inl (StdException ''partitioner failed'')) None)
       (LifeCycle (scenario (Inr (settings_of ''mesh.g'' ''out/mesh.g'' ''cout'')) True (Inr 7) (Inl (StdException ''partitioner failed'')) None)
         (comm_of 0 4) [''stk_balance'', ''mesh.g'', ''out''])))) = [InitialDecomp, Balance 7]
   \<and> fst
       (run (scenario (Inr (settings_of ''mesh.g'' ''out/mesh.g'' ''cout'')) True (Inr 7) (Inr 8) (Some (StdException ''disk full'')))
       (LifeCycle (scenario (Inr (settings_of ''mesh.g'' ''out/mesh.g'' ''cout'')) True (Inr 7) (Inr 8) (Some (StdException ''disk full'')))
         (comm_of 0 4) [''stk_balance'', ''mesh.g'', ''out''])) = None
   \<and> fst (exit_code
       (snd
       (run (scenario (Inr (settings_of ''mesh.g'' ''out/mesh.g'' ''cout'')) True (Inr 7) (Inr 8) (Some (StdException ''disk full'')))
       (LifeCycle (scenario (Inr (settings_of ''mesh.g'' ''out/mesh.g'' ''cout'')) True (Inr 7) (Inr 8) (Some (StdException ''disk full'')))
         (comm_of 0 4) [''stk_balance'', ''mesh.g'', ''out''])))) = 2
   \<and> pipeline (trace
       (snd
       (run (scenario (Inr (settings_of ''mesh.g'' ''out/mesh.g'' ''cout'')) True (Inr 7) (Inr 8) (Some (StdException ''disk full'')))
       (LifeCycle (scenario (Inr (settings_of ''mesh.g'' ''out/mesh.g'' ''cout'')) True (Inr 7) (Inr 8) (Some (StdException ''disk full'')))
         (comm_of 0 4) [''stk_balance'', ''mesh.g'', ''out''])))) = [InitialDecomp, Balance 7, WriteMesh 8]"
  using std_exception_in_pipeline_caught_exit_2 [of
      "scenario (Inr (settings_of ''mesh.g'' ''out/mesh.g'' ''cout'')) True (Inl (StdException ''cannot open mesh.g'')) (Inr 8) None"
      "[''stk_balance'', ''mesh.g'', ''out'']" "settings_of ''mesh.g'' ''out/mesh.g'' ''cout''" "comm_of 0 4"
      "''cannot open mesh.g''" 7 8]
    std_exception_in_pipeline_caught_exit_2 [of
      "scenario (Inr (settings_of ''mesh.g'' ''out/mesh.g'' ''cout'')) True (Inr 7) (Inl (StdException ''partitioner failed'')) None"
      "[''stk_balance'', ''mesh.g'', ''out'']" "settings_of ''mesh.g'' ''out/mesh.g'' ''cout''" "comm_of 0 4"
      "''partitioner failed''" 7 8]
    std_exception_in_pipeline_caught_exit_2 [of
      "scenario (Inr (settings_of ''mesh.g'' ''out/mesh.g'' ''cout'')) True (Inr 7) (Inr 8) (Some (StdException ''disk full''))"
      "[''stk_balance'', ''mesh.g'', ''out'']" "settings_of ''mesh.g'' ''out/mesh.g'' ''cout''" "comm_of 0 4"
      "''disk full''" 7 8]
  by (simp add: serial_input_equals_output_def)

text \<open>
  Against C4 as stated (any exception a step raises is caught inside \<^verbatim>\<open>run()\<close> and
  the exit code becomes 2): the balancer throws a value that is not derived from
  \<^verbatim>\<open>std::exception\<close>. The one catch clause of \<^verbatim>\<open>run()\<close> does not match it: the
  value leaves \<^verbatim>\<open>run()\<close>, and the exit code is still 0.
\<close>

theorem other_exception_leaves_run:
  "fst
      (run (scenario (Inr (settings_of ''mesh.g'' ''out/mesh.g'' ''cout'')) True (Inr 7) (Inl OtherThrown) None)
      (LifeCycle (scenario (Inr (settings_of ''mesh.g'' ''out/mesh.g'' ''cout'')) True (Inr 7) (Inl OtherThrown) None)
        (comm_of 0 4) [''stk_balance'', ''mesh.g'', ''out''])) = Some OtherThrown
   \<and> fst (exit_code
       (snd
       (run (scenario (Inr (settings_of ''mesh.g'' ''out/mesh.g'' ''cout'')) True (Inr 7) (Inl OtherThrown) None)
       (LifeCycle (scenario (Inr (settings_of ''mesh.g'' ''out/mesh.g'' ''cout'')) True (Inr 7) (Inl OtherThrown) None)
         (comm_of 0 4) [''stk_balance'', ''mesh.g'', ''out''])))) = 0"
proof -
  let ?st = "settings_of ''mesh.g'' ''out/mesh.g'' ''cout''"
  let ?w = "scenario (Inr ?st) True (Inr 7) (Inl OtherThrown) None"
  let ?s = "LifeCycle ?w (comm_of 0 4) [''stk_balance'', ''mesh.g'', ''out'']"
  have a: "parse_command_line_options ?w [''stk_balance'', ''mesh.g'', ''out''] (default_settings ?w) = Inr ?st"
    and b: "file_exists ?w (get_input_filename ?st)" by simp_all
  note f = LifeCycle_parsed_fields [OF a b, of "comm_of 0 4"]
  have n: "\<not> serial_no_op ?w ?s"
    by (simp add: serial_no_op_def serial_input_equals_output_def f)
  have b: "balance ?w ?s = (Some OtherThrown, [NewBalanceIO (comm_of 0 4) ?st, NewBalancer ?st,
      InitialDecomp, Balance 7])"
    by (simp add: balance_def f)
  show ?thesis
    by (simp add: run_not_caught [OF f(1) n b] exit_code_def f)
qed

text \<open>
  C5, as amended. Every failure that \<^verbatim>\<open>LifeCycle\<close> catches puts one text on the
  standard error stream, from the root process only: the message of the exception followed
  by one line end, which is exactly one line when the message itself holds no line end. A
  parse failure (malformed arguments, or a missing input file) leaves exactly that text as
  the whole output of construction on rank 0, and no output on any other rank. A
  \<^verbatim>\<open>std::exception\<close> thrown by the pipeline in \<^verbatim>\<open>run()\<close> adds exactly that text
  after the output of the banner on rank 0, and nothing on any other rank. The stream is
  \<^verbatim>\<open>std::cerr\<close> whatever \<^verbatim>\<open>logFilename\<close> says: \<^verbatim>\<open>print_parse_error\<close> and
  \<^verbatim>\<open>print_balance_error\<close> write to it by name and do not go through
  \<^verbatim>\<open>m_outputP0\<close>.
\<close>

theorem failure_text_on_stderr_from_root_only:
  "(parse_command_line_options w argv (default_settings w) = Inl e \<longrightarrow>
      visible_output (trace (LifeCycle w c argv)) =
        (if comm_rank c = 0 then [Write StdCerr (e @ endl)] else []))
   \<and> (parse_command_line_options w argv (default_settings w) = Inr st
        \<and> \<not> file_exists w (get_input_filename st) \<longrightarrow>
      visible_output (trace (LifeCycle w c argv)) =
        (if comm_rank c = 0
         then [Write StdCerr (file_missing_what w (get_input_filename st) @ endl)] else []))
   \<and> (parse_command_line_options w argv (default_settings w) = Inr st
        \<and> file_exists w (get_input_filename st)
        \<and> \<not> serial_input_equals_output w c (get_input_filename st) (get_output_filename st)
        \<and> first_failure w = Some (StdException e) \<longrightarrow>
      visible_output (added (LifeCycle w c argv) (snd (run w (LifeCycle w c argv)))) =
        (if comm_rank c = 0
         then [Write DiagStream
                 (''Running stk_balance on '' @ show_int (comm_size c) @ '' MPI ranks'' @ endl)]
              @ (if get_log_filename st = ''cout'' \<or> get_log_filename st = ''cerr'' then []
                 else [Write DiagStream (''        Log file: '' @ get_log_filename st @ endl)])
              @ [Write DiagStream (''      Input file: '' @ get_input_filename st @ endl),
                 Write DiagStream
                   (''    Output files: '' @ get_output_filename st @ ''.''
                      @ show_int (comm_size c) @ ''.*'' @ endl),
                 PrintBanner (if get_log_filename st = ''cout'' then StdCout
                          else if get_log_filename st = ''cerr'' then StdCerr
                          else LogFile (get_log_filename st)),
                 Write StdCerr (e @ endl)]
         else []))
   \<and> (CHR 0x0A \<notin> set e \<longrightarrow> count_line_ends (e @ endl) = 1)"
proof (intro conjI impI)
  assume "parse_command_line_options w argv (default_settings w) = Inl e"
  then show "visible_output (trace (LifeCycle w c argv)) =
        (if comm_rank c = 0 then [Write StdCerr (e @ endl)] else [])"
    by (simp add: LifeCycle_malformed)
next
  assume "parse_command_line_options w argv (default_settings w) = Inr st
        \<and> \<not> file_exists w (get_input_filename st)"
  then show "visible_output (trace (LifeCycle w c argv)) =
        (if comm_rank c = 0
         then [Write StdCerr (file_missing_what w (get_input_filename st) @ endl)] else [])"
    by (simp add: LifeCycle_missing)
next
  assume a: "parse_command_line_options w argv (default_settings w) = Inr st
        \<and> file_exists w (get_input_filename st)
        \<and> \<not> serial_input_equals_output w c (get_input_filename st) (get_output_filename st)
        \<and> first_failure w = Some (StdException e)"
  then have p: "parse_command_line_options w argv (default_settings w) = Inr st"
    and x: "file_exists w (get_input_filename st)" by simp_all
  note f = LifeCycle_parsed_fields [OF p x, of c]
  note o = LifeCycle_parsed_outputP0 [OF p x, of c]
  have n: "\<not> serial_no_op w (LifeCycle w c argv)"
    using a by (simp add: serial_no_op_def f)
  have e: "fst (balance w (LifeCycle w c argv)) = Some (StdException e)"
    using a by (simp add: balance_throws_first_failure)
  show "visible_output (added (LifeCycle w c argv) (snd (run w (LifeCycle w c argv)))) =
        (if comm_rank c = 0
         then [Write DiagStream
                 (''Running stk_balance on '' @ show_int (comm_size c) @ '' MPI ranks'' @ endl)]
              @ (if get_log_filename st = ''cout'' \<or> get_log_filename st = ''cerr'' then []
                 else [Write DiagStream (''        Log file: '' @ get_log_filename st @ endl)])
              @ [Write DiagStream (''      Input file: '' @ get_input_filename st @ endl),
                 Write DiagStream
                   (''    Output files: '' @ get_output_filename st @ ''.''
                      @ show_int (comm_size c) @ ''.*'' @ endl),
                 PrintBanner (if get_log_filename st = ''cout'' then StdCout
                          else if get_log_filename st = ''cerr'' then StdCerr
                          else LogFile (get_log_filename st)),
                 Write StdCerr (e @ endl)]
         else [])"
  proof (cases "comm_rank c = 0")
    case True
    then show ?thesis
      by (simp add: run_added [OF f(1)] n e balance_events print_balance_error_def f o
          print_running_message_def print_banner_def through_outputP0_def Let_def
          parallel_machine_size_def)
  next
    case False
    then have q: "\<not> m_isProc0 (LifeCycle w c argv)" by (simp add: f)
    from False have o': "m_outputP0 (LifeCycle w c argv) = Some OutputNull"
      by (simp add: o)
    from False show ?thesis
      by (simp add: run_added [OF f(1)] n e balance_events printers_not_root [OF q o'])
  qed
next
  assume "CHR 0x0A \<notin> set e"
  then show "count_line_ends (e @ endl) = 1"
    by (auto simp: count_line_ends_def endl_def filter_empty_conv)
qed

theorem failure_text_on_stderr_from_root_only_witness:
  "visible_output (trace
      (LifeCycle (scenario (Inl ''unrecognised option'') True (Inr 0) (Inr 0) None)
        (comm_of 0 4) [''stk_balance'', ''--bogus''])) = [Write StdCerr (''unrecognised option'' @ endl)]
   \<and> visible_output (trace
       (LifeCycle (scenario (Inr (settings_of ''mesh.g'' ''out/mesh.g'' ''cout'')) False (Inr 0) (Inr 0) None)
         (comm_of 0 4) [''stk_balance'', ''mesh.g''])) = [Write StdCerr (''no such file: mesh.g'' @ endl)]
   \<and> visible_output (added
       (LifeCycle (scenario (Inr (settings_of ''mesh.g'' ''out/mesh.g'' ''cout'')) True (Inr 7) (Inl (StdException ''partitioner failed'')) None)
         (comm_of 0 4) [''stk_balance'', ''mesh.g'', ''out''])
            (snd
            (run (scenario (Inr (settings_of ''mesh.g'' ''out/mesh.g'' ''cout'')) True (Inr 7) (Inl (StdException ''partitioner failed'')) None)
            (LifeCycle (scenario (Inr (settings_of ''mesh.g'' ''out/mesh.g'' ''cout'')) True (Inr 7) (Inl (StdException ''partitioner failed'')) None)
              (comm_of 0 4) [''stk_balance'', ''mesh.g'', ''out'']))))
      = [Write DiagStream (''Running stk_balance on 4 MPI ranks'' @ endl),
         Write DiagStream (''      Input file: mesh.g'' @ endl),
         Write DiagStream (''    Output files: out/mesh.g.4.*'' @ endl),
         PrintBanner StdCout,
         Write StdCerr (''partitioner failed'' @ endl)]
   \<and> count_line_ends (''partitioner failed'' @ endl) = 1"
proof -
  have four: "show_int 4 = ''4''" by code_simp
  show ?thesis
    using failure_text_on_stderr_from_root_only [of "scenario (Inl ''unrecognised option'') True (Inr 0) (Inr 0) None"
         "[''stk_balance'', ''--bogus'']" "''unrecognised option''" "comm_of 0 4"]
       failure_text_on_stderr_from_root_only [of "scenario (Inr (settings_of ''mesh.g'' ''out/mesh.g'' ''cout'')) False (Inr 0) (Inr 0) None"
         "[''stk_balance'', ''mesh.g'']" _ "comm_of 0 4" "settings_of ''mesh.g'' ''out/mesh.g'' ''cout''"]
       failure_text_on_stderr_from_root_only [of "scenario (Inr (settings_of ''mesh.g'' ''out/mesh.g'' ''cout'')) True (Inr 7) (Inl (StdException ''partitioner failed'')) None"
         "[''stk_balance'', ''mesh.g'', ''out'']" "''partitioner failed''" "comm_of 0 4" "settings_of ''mesh.g'' ''out/mesh.g'' ''cout''"]
       four
    by (simp add: serial_input_equals_output_def first_failure_def)
qed

text \<open>
  Against C5 as stated (exactly one line, on whichever stream the configuration binds):
  with \<^verbatim>\<open>logFilename = "cout"\<close> the stream bound on rank 0 is standard output; when
  the write of the mesh fails with a message of two lines, nothing at all is written to
  standard output, and what is written to standard error is that message and a line end,
  two lines.
\<close>

theorem failure_line_not_on_bound_stream:
  "m_outputP0
      (snd
      (run (scenario (Inr (settings_of ''mesh.g'' ''out/mesh.g'' ''cout'')) True (Inr 7) (Inr 8) (Some (StdException two_line_message)))
      (LifeCycle (scenario (Inr (settings_of ''mesh.g'' ''out/mesh.g'' ''cout'')) True (Inr 7) (Inr 8) (Some (StdException two_line_message)))
        (comm_of 0 4) [''stk_balance'', ''mesh.g'', ''out'']))) = Some StdCout
   \<and> lines_to StdCout (trace
       (snd
       (run (scenario (Inr (settings_of ''mesh.g'' ''out/mesh.g'' ''cout'')) True (Inr 7) (Inr 8) (Some (StdException two_line_message)))
       (LifeCycle (scenario (Inr (settings_of ''mesh.g'' ''out/mesh.g'' ''cout'')) True (Inr 7) (Inr 8) (Some (StdException two_line_message)))
         (comm_of 0 4) [''stk_balance'', ''mesh.g'', ''out''])))) = []
   \<and> lines_to StdCerr (trace
       (snd
       (run (scenario (Inr (settings_of ''mesh.g'' ''out/mesh.g'' ''cout'')) True (Inr 7) (Inr 8) (Some (StdException two_line_message)))
       (LifeCycle (scenario (Inr (settings_of ''mesh.g'' ''out/mesh.g'' ''cout'')) True (Inr 7) (Inr 8) (Some (StdException two_line_message)))
         (comm_of 0 4) [''stk_balance'', ''mesh.g'', ''out''])))) = [two_line_message @ endl]
   \<and> count_line_ends (two_line_message @ endl) = 2"
proof -
  let ?st = "settings_of ''mesh.g'' ''out/mesh.g'' ''cout''"
  let ?w = "scenario (Inr ?st) True (Inr 7) (Inr 8) (Some (StdException two_line_message))"
  let ?s = "LifeCycle ?w (comm_of 0 4) [''stk_balance'', ''mesh.g'', ''out'']"
  have a: "parse_command_line_options ?w [''stk_balance'', ''mesh.g'', ''out''] (default_settings ?w) = Inr ?st"
    and b: "file_exists ?w (get_input_filename ?st)" by simp_all
  note f = LifeCycle_parsed_fields [OF a b, of "comm_of 0 4"]
  note p = LifeCycle_parsed_outputP0 [OF a b, of "comm_of 0 4"]
  note t = LifeCycle_parsed_trace [OF a b, of "comm_of 0 4"]
  have n: "\<not> serial_no_op ?w ?s"
    by (simp add: serial_no_op_def serial_input_equals_output_def f)
  have two: "count_line_ends (two_line_message @ endl) = 2"
    by (simp add: count_line_ends_def endl_def two_line_message_def)
  show ?thesis
    by (simp add: run_trace [OF f(1)] n f p t balance_def print_running_message_def Let_def
        print_banner_def through_outputP0_def print_balance_error_def two)
qed

text \<open>
  C6. On the root process, after a successful parse, the lines \<^verbatim>\<open>run()\<close> writes to
  \<^verbatim>\<open>diag_stream\<close> are the banner: the number of ranks, the log file when one is
  named, the input file, and last the output files, whose pattern is the configured
  output filename, a dot, the size of the communicator in decimal, and \<^verbatim>\<open>.*\<close>.
  The decimal text printed for the size reads back as the size.
\<close>

theorem banner_reports_output_pattern:
  assumes "parse_command_line_options w argv (default_settings w) = Inr st"
      and "file_exists w (get_input_filename st)"
      and "comm_rank c = 0"
  shows "lines_to DiagStream (trace (snd (run w (LifeCycle w c argv)))) =
           [''Running stk_balance on '' @ show_int (comm_size c) @ '' MPI ranks'' @ endl]
           @ (if get_log_filename st = ''cout'' \<or> get_log_filename st = ''cerr'' then []
              else [''        Log file: '' @ get_log_filename st @ endl])
           @ [''      Input file: '' @ get_input_filename st @ endl,
              ''    Output files: '' @ get_output_filename st @ ''.'' @ show_int (comm_size c)
                 @ ''.*'' @ endl]
     \<and> read_int (show_int (comm_size c)) = comm_size c"
proof -
  note f = LifeCycle_parsed_fields [OF assms(1,2), of c]
  have o: "m_outputP0 (LifeCycle w c argv) \<noteq> Some DiagStream"
    by (simp add: LifeCycle_parsed_outputP0 [OF assms(1,2)])
  have built: "lines_to DiagStream (trace (LifeCycle w c argv)) = []"
    by (simp add: LifeCycle_parsed_trace [OF assms(1,2)])
  have banner: "lines_to DiagStream (print_running_message (LifeCycle w c argv)) =
           [''Running stk_balance on '' @ show_int (comm_size c) @ '' MPI ranks'' @ endl]
           @ (if get_log_filename st = ''cout'' \<or> get_log_filename st = ''cerr'' then []
              else [''        Log file: '' @ get_log_filename st @ endl])
           @ [''      Input file: '' @ get_input_filename st @ endl,
              ''    Output files: '' @ get_output_filename st @ ''.'' @ show_int (comm_size c)
                 @ ''.*'' @ endl]"
    using assms(3)
    by (simp add: print_running_message_def Let_def f parallel_machine_size_def)
  have "lines_to DiagStream (trace (snd (run w (LifeCycle w c argv)))) =
      lines_to DiagStream (print_running_message (LifeCycle w c argv))"
    by (simp add: run_trace [OF f(1)] built lines_to_diag_others lines_to_diag_outputP0 [OF o]
        split: option.splits thrown.splits)
  with banner show ?thesis
    by (simp add: read_show_int)
qed

theorem banner_reports_output_pattern_witness:
  "lines_to DiagStream (trace
      (snd
      (run (scenario (Inr (settings_of ''mesh.g'' ''out/mesh.g'' ''stk_balance.log'')) True (Inr 7) (Inr 8) None)
      (LifeCycle (scenario (Inr (settings_of ''mesh.g'' ''out/mesh.g'' ''stk_balance.log'')) True (Inr 7) (Inr 8) None)
        (comm_of 0 16) [''stk_balance'', ''mesh.g'', ''out''])))) =
     [''Running stk_balance on 16 MPI ranks'' @ endl,
      ''        Log file: stk_balance.log'' @ endl,
      ''      Input file: mesh.g'' @ endl,
      ''    Output files: out/mesh.g.16.*'' @ endl]"
proof -
  have "show_int 16 = ''16''"
    by code_simp
  with banner_reports_output_pattern [of "scenario (Inr (settings_of ''mesh.g'' ''out/mesh.g'' ''stk_balance.log'')) True (Inr 7) (Inr 8) None"
      "[''stk_balance'', ''mesh.g'', ''out'']" "settings_of ''mesh.g'' ''out/mesh.g'' ''stk_balance.log''"
      "comm_of 0 16"]
  show ?thesis by simp
qed

text \<open>
  C7, as amended. \<^verbatim>\<open>exit_code()\<close> leaves the state as it is and a second call
  returns the same value. Once the exit code is not 0, whether the parse phase or a failed
  run set it, \<^verbatim>\<open>run()\<close> returns at once with the state it was given, so it runs no
  pipeline and the exit code is kept. After a run that left exit code 0 (the serial no-op,
  or a completed balance) nothing is recorded, and the exit code after a second
  \<^verbatim>\<open>run()\<close> is decided by that second run: 0 when the no-op predicate holds then,
  2 when it does not hold and the first step that throws then throws an exception derived
  from \<^verbatim>\<open>std::exception\<close>, and 0 otherwise.
\<close>

theorem exit_code_pure_and_kept_once_nonzero:
  "snd (exit_code s) = s
   \<and> fst (exit_code (snd (exit_code s))) = fst (exit_code s)
   \<and> (fst (exit_code s) \<noteq> 0 \<longrightarrow> run w s = (None, s))
   \<and> (fst (exit_code (snd (run w s))) \<noteq> 0 \<longrightarrow>
        run w' (snd (run w s)) = (None, snd (run w s)))
   \<and> (fst (exit_code s) = 0 \<and> serial_no_op w s \<and> serial_no_op w' s \<longrightarrow>
        fst (exit_code (snd (run w' (snd (run w s))))) = fst (exit_code (snd (run w s))))
   \<and> (fst (exit_code s) = 0 \<and> fst (exit_code (snd (run w s))) = 0 \<longrightarrow>
        fst (exit_code (snd (run w' (snd (run w s))))) =
          (if serial_input_equals_output w' (m_comm s)
                (get_input_filename (m_settings s)) (get_output_filename (m_settings s))
           then 0
           else case first_failure w' of
                  Some (StdException e) \<Rightarrow> 2
                | Some OtherThrown \<Rightarrow> 0
                | None \<Rightarrow> 0))"
proof (intro conjI impI)
  show "snd (exit_code s) = s" by (simp add: exit_code_def)
  show "fst (exit_code (snd (exit_code s))) = fst (exit_code s)" by (simp add: exit_code_def)
  show "run w s = (None, s)" if "fst (exit_code s) \<noteq> 0"
    using that by (simp add: exit_code_def run_gated)
  show "run w' (snd (run w s)) = (None, snd (run w s))" if "fst (exit_code (snd (run w s))) \<noteq> 0"
    using that by (simp add: exit_code_def run_gated)
  show "fst (exit_code (snd (run w' (snd (run w s))))) = fst (exit_code (snd (run w s)))"
    if h: "fst (exit_code s) = 0 \<and> serial_no_op w s \<and> serial_no_op w' s"
  proof -
    from h have z: "m_exitCode s = 0" by (simp add: exit_code_def)
    from h have once: "m_exitCode (snd (run w s)) = 0" by (simp add: run_exit_code [OF z])
    from h have "m_exitCode (snd (run w' (snd (run w s)))) = 0" by (simp add: run_exit_code [OF once])
    with once show ?thesis by (simp add: exit_code_def)
  qed
  show "fst (exit_code (snd (run w' (snd (run w s))))) =
          (if serial_input_equals_output w' (m_comm s)
                (get_input_filename (m_settings s)) (get_output_filename (m_settings s))
           then 0
           else case first_failure w' of
                  Some (StdException e) \<Rightarrow> 2
                | Some OtherThrown \<Rightarrow> 0
                | None \<Rightarrow> 0)"
    if h: "fst (exit_code s) = 0 \<and> fst (exit_code (snd (run w s))) = 0"
  proof -
    from h have once: "m_exitCode (snd (run w s)) = 0" by (simp add: exit_code_def)
    show ?thesis
      by (simp add: exit_code_def run_exit_code [OF once] balance_throws_first_failure
          serial_no_op_def)
  qed
qed

theorem exit_code_pure_and_kept_once_nonzero_witness:
  "fst (exit_code
      (LifeCycle (scenario (Inl ''unrecognised option'') True (Inr 0) (Inr 0) None)
        (comm_of 0 4) [''stk_balance'', ''--bogus''])) \<noteq> 0
   \<and> run (scenario (Inr (settings_of ''mesh.g'' ''out/mesh.g'' ''cout'')) True (Inr 7) (Inr 8) None)
       (LifeCycle (scenario (Inl ''unrecognised option'') True (Inr 0) (Inr 0) None)
         (comm_of 0 4) [''stk_balance'', ''--bogus''])
      = (None, LifeCycle (scenario (Inl ''unrecognised option'') True (Inr 0) (Inr 0) None)
            (comm_of 0 4) [''stk_balance'', ''--bogus''])
   \<and> fst (exit_code
       (snd
       (run (scenario (Inr (settings_of ''mesh.g'' ''out/mesh.g'' ''cout'')) True (Inr 7) (Inl (StdException ''partitioner failed'')) None)
       (LifeCycle (scenario (Inr (settings_of ''mesh.g'' ''out/mesh.g'' ''cout'')) True (Inr 7) (Inl (StdException ''partitioner failed'')) None)
         (comm_of 0 4) [''stk_balance'', ''mesh.g'', ''out''])))) \<noteq> 0
   \<and> run (scenario (Inr (settings_of ''mesh.g'' ''out/mesh.g'' ''cout'')) True (Inr 7) (Inr 8) None)
       (snd
       (run (scenario (Inr (settings_of ''mesh.g'' ''out/mesh.g'' ''cout'')) True (Inr 7) (Inl (StdException ''partitioner failed'')) None)
       (LifeCycle (scenario (Inr (settings_of ''mesh.g'' ''out/mesh.g'' ''cout'')) True (Inr 7) (Inl (StdException ''partitioner failed'')) None)
         (comm_of 0 4) [''stk_balance'', ''mesh.g'', ''out''])))
      = (None, snd
          (run (scenario (Inr (settings_of ''mesh.g'' ''out/mesh.g'' ''cout'')) True (Inr 7) (Inl (StdException ''partitioner failed'')) None)
          (LifeCycle (scenario (Inr (settings_of ''mesh.g'' ''out/mesh.g'' ''cout'')) True (Inr 7) (Inl (StdException ''partitioner failed'')) None)
            (comm_of 0 4) [''stk_balance'', ''mesh.g'', ''out''])))
   \<and> serial_no_op (scenario (Inr (settings_of ''mesh.g'' ''mesh.g'' ''cout'')) True (Inr 7) (Inr 8) None)
            (LifeCycle (scenario (Inr (settings_of ''mesh.g'' ''mesh.g'' ''cout'')) True (Inr 7) (Inr 8) None)
              (comm_of 0 1) [''stk_balance'', ''mesh.g''])
   \<and> fst (exit_code
       (snd
       (run (scenario (Inr (settings_of ''mesh.g'' ''mesh.g'' ''cout'')) True (Inr 7) (Inr 8) None)
       (snd
       (run (scenario (Inr (settings_of ''mesh.g'' ''mesh.g'' ''cout'')) True (Inr 7) (Inr 8) None)
       (LifeCycle (scenario (Inr (settings_of ''mesh.g'' ''mesh.g'' ''cout'')) True (Inr 7) (Inr 8) None)
         (comm_of 0 1) [''stk_balance'', ''mesh.g''])))))) = 0
   \<and> fst (exit_code
       (snd
       (run (scenario (Inr (settings_of ''mesh.g'' ''out/mesh.g'' ''cout'')) True (Inr 7) (Inr 8) None)
       (LifeCycle (scenario (Inr (settings_of ''mesh.g'' ''out/mesh.g'' ''cout'')) True (Inr 7) (Inr 8) None)
         (comm_of 0 4) [''stk_balance'', ''mesh.g'', ''out''])))) = 0
   \<and> fst (exit_code
       (snd
       (run (scenario (Inr (settings_of ''mesh.g'' ''out/mesh.g'' ''cout'')) True (Inr 7) (Inr 8) (Some (StdException ''disk full'')))
       (snd
       (run (scenario (Inr (settings_of ''mesh.g'' ''out/mesh.g'' ''cout'')) True (Inr 7) (Inr 8) None)
       (LifeCycle (scenario (Inr (settings_of ''mesh.g'' ''out/mesh.g'' ''cout'')) True (Inr 7) (Inr 8) None)
         (comm_of 0 4) [''stk_balance'', ''mesh.g'', ''out''])))))) = 2"
proof -
  let ?bad = "scenario (Inl ''unrecognised option'') True (Inr 0) (Inr 0) None"
  let ?st = "settings_of ''mesh.g'' ''out/mesh.g'' ''cout''"
  let ?ok = "scenario (Inr ?st) True (Inr 7) (Inr 8) None"
  let ?fail = "scenario (Inr ?st) True (Inr 7) (Inl (StdException ''partitioner failed'')) None"
  let ?wr = "scenario (Inr ?st) True (Inr 7) (Inr 8) (Some (StdException ''disk full''))"
  let ?st1 = "settings_of ''mesh.g'' ''mesh.g'' ''cout''"
  let ?same = "scenario (Inr ?st1) True (Inr 7) (Inr 8) None"
  let ?s0 = "LifeCycle ?bad (comm_of 0 4) [''stk_balance'', ''--bogus'']"
  let ?s1 = "LifeCycle ?fail (comm_of 0 4) [''stk_balance'', ''mesh.g'', ''out'']"
  let ?s2 = "LifeCycle ?same (comm_of 0 1) [''stk_balance'', ''mesh.g'']"
  let ?s3 = "LifeCycle ?ok (comm_of 0 4) [''stk_balance'', ''mesh.g'', ''out'']"
  have e0: "m_exitCode ?s0 = 1"
    by (intro LifeCycle_failed) simp
  have a1: "parse_command_line_options ?fail [''stk_balance'', ''mesh.g'', ''out''] (default_settings ?fail) = Inr ?st"
    and b1: "file_exists ?fail (get_input_filename ?st)" by simp_all
  note f1 = LifeCycle_parsed_fields [OF a1 b1, of "comm_of 0 4"]
  have e1: "m_exitCode (snd (run ?fail ?s1)) = 2"
    by (simp add: run_exit_code [OF f1(1)] balance_def Let_def serial_no_op_def
        serial_input_equals_output_def f1)
  have a2: "parse_command_line_options ?same [''stk_balance'', ''mesh.g''] (default_settings ?same) = Inr ?st1"
    and b2: "file_exists ?same (get_input_filename ?st1)" by simp_all
  note f2 = LifeCycle_parsed_fields [OF a2 b2, of "comm_of 0 1"]
  have n2: "serial_no_op ?same ?s2"
    by (simp add: serial_no_op_def serial_input_equals_output_def f2 parallel_machine_size_def)
  have e2: "m_exitCode (snd (run ?same ?s2)) = 0"
    by (simp add: run_exit_code [OF f2(1)] n2)
  have a3: "parse_command_line_options ?ok [''stk_balance'', ''mesh.g'', ''out''] (default_settings ?ok) = Inr ?st"
    and b3: "file_exists ?ok (get_input_filename ?st)" by simp_all
  note f3 = LifeCycle_parsed_fields [OF a3 b3, of "comm_of 0 4"]
  have e3: "m_exitCode (snd (run ?ok ?s3)) = 0"
    by (simp add: run_exit_code [OF f3(1)] balance_def Let_def)
  show ?thesis
    using exit_code_pure_and_kept_once_nonzero [of ?s0 ?ok]
      exit_code_pure_and_kept_once_nonzero [of ?s1 ?fail ?ok]
      exit_code_pure_and_kept_once_nonzero [of ?s2 ?same ?same]
      exit_code_pure_and_kept_once_nonzero [of ?s3 ?ok ?wr]
      e0 e1 e2 e3 n2 f2(1) f3
    by (simp add: exit_code_def serial_input_equals_output_def first_failure_def)
qed

text \<open>
  Against C7 as stated (a second \<^verbatim>\<open>run()\<close> after any terminal state keeps the exit
  code): after a run that balanced and wrote the mesh the exit code is 0; a second
  \<^verbatim>\<open>run()\<close> executes the pipeline again, and when its write fails the exit code is 2.
\<close>

theorem second_run_after_balanced_changes_exit_code:
  "fst (exit_code
      (snd
      (run (scenario (Inr (settings_of ''mesh.g'' ''out/mesh.g'' ''cout'')) True (Inr 7) (Inr 8) None)
      (LifeCycle (scenario (Inr (settings_of ''mesh.g'' ''out/mesh.g'' ''cout'')) True (Inr 7) (Inr 8) None)
        (comm_of 0 4) [''stk_balance'', ''mesh.g'', ''out''])))) = 0
   \<and> fst (exit_code
       (snd
       (run (scenario (Inr (settings_of ''mesh.g'' ''out/mesh.g'' ''cout'')) True (Inr 7) (Inr 8) (Some (StdException ''disk full'')))
       (snd
       (run (scenario (Inr (settings_of ''mesh.g'' ''out/mesh.g'' ''cout'')) True (Inr 7) (Inr 8) None)
       (LifeCycle (scenario (Inr (settings_of ''mesh.g'' ''out/mesh.g'' ''cout'')) True (Inr 7) (Inr 8) None)
         (comm_of 0 4) [''stk_balance'', ''mesh.g'', ''out''])))))) = 2"
proof -
  let ?w = "scenario (Inr (settings_of ''mesh.g'' ''out/mesh.g'' ''cout'')) True (Inr 7) (Inr 8) None"
  let ?w' = "scenario (Inr (settings_of ''mesh.g'' ''out/mesh.g'' ''cout'')) True (Inr 7) (Inr 8) (Some (StdException ''disk full''))"
  let ?st = "settings_of ''mesh.g'' ''out/mesh.g'' ''cout''"
  let ?s = "LifeCycle ?w (comm_of 0 4) [''stk_balance'', ''mesh.g'', ''out'']"
  have a: "parse_command_line_options ?w [''stk_balance'', ''mesh.g'', ''out''] (default_settings ?w) = Inr ?st"
    and b: "file_exists ?w (get_input_filename ?st)" by simp_all
  note f = LifeCycle_parsed_fields [OF a b, of "comm_of 0 4"]
  have first: "m_exitCode (snd (run ?w ?s)) = 0"
    by (simp add: run_exit_code [OF f(1)] balance_def Let_def)
  have "m_exitCode (snd (run ?w' (snd (run ?w ?s)))) = 2"
    by (simp add: run_exit_code [OF first] balance_def Let_def serial_no_op_def
        serial_input_equals_output_def f)
  with first show ?thesis
    by (simp add: exit_code_def)
qed

text \<open>
  C8. After a successful parse the pointer \<^verbatim>\<open>m_outputP0\<close> is a function of the rank
  and of \<^verbatim>\<open>logFilename\<close>: on rank 0 it is standard output for \<^verbatim>\<open>"cout"\<close>,
  standard error for \<^verbatim>\<open>"cerr"\<close>, and the named log file for any other name; on every
  other rank it is the null sink. On a rank other than 0 neither construction nor
  \<^verbatim>\<open>run()\<close> registers or binds a stream, and the registry of logs stays as it was
  at the start.
\<close>

theorem output_stream_bound_by_log_filename:
  assumes "parse_command_line_options w argv (default_settings w) = Inr st"
      and "file_exists w (get_input_filename st)"
  shows "m_outputP0 (LifeCycle w c argv) =
           Some (if comm_rank c = 0
                 then (if get_log_filename st = ''cout'' then StdCout
                       else if get_log_filename st = ''cerr'' then StdCerr
                       else LogFile (get_log_filename st))
                 else OutputNull)
     \<and> (comm_rank c \<noteq> 0 \<longrightarrow>
           stream_resources (trace (snd (run w' (LifeCycle w c argv)))) = []
         \<and> log_registry (snd (run w' (LifeCycle w c argv))) = initial_log_registry)"
proof (intro conjI impI)
  show "m_outputP0 (LifeCycle w c argv) =
           Some (if comm_rank c = 0
                 then (if get_log_filename st = ''cout'' then StdCout
                       else if get_log_filename st = ''cerr'' then StdCerr
                       else LogFile (get_log_filename st))
                 else OutputNull)"
    by (rule LifeCycle_parsed_outputP0 [OF assms])
next
  assume r: "comm_rank c \<noteq> 0"
  note f = LifeCycle_parsed_fields [OF assms, of c]
  from r have q: "\<not> m_isProc0 (LifeCycle w c argv)" by (simp add: f)
  from r have built: "stream_resources (trace (LifeCycle w c argv)) = []"
    by (simp add: LifeCycle_parsed_trace [OF assms])
  then show "stream_resources (trace (snd (run w' (LifeCycle w c argv)))) = []"
    by (simp add: run_trace [OF f(1)] printers_open_nothing q balance_events
        split: option.splits thrown.splits)
  from r show "log_registry (snd (run w' (LifeCycle w c argv))) = initial_log_registry"
    by (simp add: LifeCycle_parsed [OF assms] set_output_streams_def Let_def
        parallel_machine_rank_def)
qed

theorem output_stream_bound_by_log_filename_witness:
  "m_outputP0
      (LifeCycle (scenario (Inr (settings_of ''mesh.g'' ''out/mesh.g'' ''cerr'')) True (Inr 7) (Inr 8) None)
        (comm_of 0 4) [''stk_balance'', ''mesh.g'', ''out'']) = Some StdCerr
   \<and> m_outputP0
       (LifeCycle (scenario (Inr (settings_of ''mesh.g'' ''out/mesh.g'' ''stk_balance.log'')) True (Inr 7) (Inr 8) None)
         (comm_of 0 4) [''stk_balance'', ''mesh.g'', ''out'']) = Some (LogFile ''stk_balance.log'')
   \<and> m_outputP0
       (LifeCycle (scenario (Inr (settings_of ''mesh.g'' ''out/mesh.g'' ''stk_balance.log'')) True (Inr 7) (Inr 8) None)
         (comm_of 3 4) [''stk_balance'', ''mesh.g'', ''out'']) = Some OutputNull
   \<and> stream_resources (trace
       (snd
       (run (scenario (Inr (settings_of ''mesh.g'' ''out/mesh.g'' ''stk_balance.log'')) True (Inr 7) (Inr 8) None)
       (LifeCycle (scenario (Inr (settings_of ''mesh.g'' ''out/mesh.g'' ''stk_balance.log'')) True (Inr 7) (Inr 8) None)
         (comm_of 3 4) [''stk_balance'', ''mesh.g'', ''out''])))) = []"
  using output_stream_bound_by_log_filename [of "scenario (Inr (settings_of ''mesh.g'' ''out/mesh.g'' ''cerr'')) True (Inr 7) (Inr 8) None"
       "[''stk_balance'', ''mesh.g'', ''out'']" "settings_of ''mesh.g'' ''out/mesh.g'' ''cerr''" "comm_of 0 4"]
     output_stream_bound_by_log_filename [of "scenario (Inr (settings_of ''mesh.g'' ''out/mesh.g'' ''stk_balance.log'')) True (Inr 7) (Inr 8) None"
       "[''stk_balance'', ''mesh.g'', ''out'']" "settings_of ''mesh.g'' ''out/mesh.g'' ''stk_balance.log''" "comm_of 0 4"]
     output_stream_bound_by_log_filename [of "scenario (Inr (settings_of ''mesh.g'' ''out/mesh.g'' ''stk_balance.log'')) True (Inr 7) (Inr 8) None"
       "[''stk_balance'', ''mesh.g'', ''out'']" "settings_of ''mesh.g'' ''out/mesh.g'' ''stk_balance.log''" "comm_of 3 4"
       "scenario (Inr (settings_of ''mesh.g'' ''out/mesh.g'' ''stk_balance.log'')) True (Inr 7) (Inr 8) None"]
  by simp

text \<open>
  C9. On a process whose rank is not 0, whatever the arguments and whatever the
  collaborators answer (parse failure, no-op, successful balance, failed balance), neither
  construction nor \<^verbatim>\<open>run()\<close> writes to a standard stream or a log file: every write
  of its history goes to the null sink.
\<close>

theorem non_root_writes_nothing:
  assumes "comm_rank c \<noteq> 0"
  shows "visible_output (trace (LifeCycle w c argv)) = []
     \<and> visible_output (trace (snd (run w' (LifeCycle w c argv)))) = []"
proof (cases "parse_command_line_options w argv (default_settings w)")
  case (Inl e)
  then have "m_exitCode (LifeCycle w c argv) = 1"
    by (intro LifeCycle_failed) simp
  then have "snd (run w' (LifeCycle w c argv)) = LifeCycle w c argv"
    by (simp add: run_def)
  then show ?thesis
    using assms by (simp add: LifeCycle_malformed [OF Inl])
next
  case (Inr st)
  show ?thesis
  proof (cases "file_exists w (get_input_filename st)")
    case False
    with Inr have "m_exitCode (LifeCycle w c argv) = 1"
      by (intro LifeCycle_failed) simp
    then have "snd (run w' (LifeCycle w c argv)) = LifeCycle w c argv"
      by (simp add: run_def)
    then show ?thesis
      using assms by (simp add: LifeCycle_missing [OF Inr False])
  next
    case True
    note f = LifeCycle_parsed_fields [OF Inr True, of c]
    have p: "m_outputP0 (LifeCycle w c argv) = Some OutputNull"
      using assms by (simp add: LifeCycle_parsed_outputP0 [OF Inr True])
    have q: "\<not> m_isProc0 (LifeCycle w c argv)"
      using assms by (simp add: f)
    have built: "visible_output (trace (LifeCycle w c argv)) = []"
      by (simp add: LifeCycle_parsed_trace [OF Inr True])
    then show ?thesis
      by (simp add: run_trace [OF f(1)] printers_not_root [OF q p] balance_events
          split: option.splits thrown.splits)
  qed
qed

theorem non_root_writes_nothing_witness:
  "visible_output (trace
      (LifeCycle (scenario (Inl ''unrecognised option'') True (Inr 0) (Inr 0) None)
        (comm_of 3 4) [''stk_balance'', ''--bogus''])) = []
   \<and> visible_output (trace
       (snd
       (run (scenario (Inr (settings_of ''mesh.g'' ''out/mesh.g'' ''stk_balance.log'')) True (Inr 7) (Inl (StdException ''partitioner failed'')) None)
       (LifeCycle (scenario (Inr (settings_of ''mesh.g'' ''out/mesh.g'' ''stk_balance.log'')) True (Inr 7) (Inl (StdException ''partitioner failed'')) None)
         (comm_of 3 4) [''stk_balance'', ''mesh.g'', ''out''])))) = []"
  using non_root_writes_nothing [of "comm_of 3 4" "scenario (Inl ''unrecognised option'') True (Inr 0) (Inr 0) None"
       "[''stk_balance'', ''--bogus'']"]
     non_root_writes_nothing [of "comm_of 3 4" "scenario (Inr (settings_of ''mesh.g'' ''out/mesh.g'' ''stk_balance.log'')) True (Inr 7) (Inl (StdException ''partitioner failed'')) None"
       "[''stk_balance'', ''mesh.g'', ''out'']"
       "scenario (Inr (settings_of ''mesh.g'' ''out/mesh.g'' ''stk_balance.log'')) True (Inr 7) (Inl (StdException ''partitioner failed'')) None"]
  by simp

text \<open>
  C10. After a successful parse, when a first \<^verbatim>\<open>run()\<close> has left exit code 0 (serial
  no-op, or completed balance), a second \<^verbatim>\<open>run()\<close> does the whole run phase again: the
  events it adds to the history are those a first run would add in the same world. On rank
  0 it writes the lines of the running banner again; it asks the validator for the no-op
  predicate again, once; and when the predicate does not hold it calls the read again, then
  the balance when the read returned a mesh, then the write when the balance returned one.
\<close>

theorem second_run_after_success_runs_again:
  assumes "parse_command_line_options w argv (default_settings w) = Inr st"
      and "file_exists w (get_input_filename st)"
      and "fst (exit_code (snd (run w (LifeCycle w c argv)))) = 0"
  shows "added (snd (run w (LifeCycle w c argv))) (snd (run w' (snd (run w (LifeCycle w c argv))))) = added (LifeCycle w c argv) (snd (run w' (LifeCycle w c argv)))
     \<and> lines_to DiagStream (added (snd (run w (LifeCycle w c argv))) (snd (run w' (snd (run w (LifeCycle w c argv)))))) =
         (if comm_rank c = 0
          then [''Running stk_balance on '' @ show_int (comm_size c) @ '' MPI ranks'' @ endl]
             @ (if get_log_filename st = ''cout'' \<or> get_log_filename st = ''cerr'' then []
                else [''        Log file: '' @ get_log_filename st @ endl])
             @ [''      Input file: '' @ get_input_filename st @ endl,
                ''    Output files: '' @ get_output_filename st @ ''.'' @ show_int (comm_size c)
                   @ ''.*'' @ endl]
          else [])
     \<and> count_list (added (snd (run w (LifeCycle w c argv))) (snd (run w' (snd (run w (LifeCycle w c argv))))))
         (SerialInputEqualsOutput (get_input_filename st) (get_output_filename st)) = 1
     \<and> pipeline (added (snd (run w (LifeCycle w c argv))) (snd (run w' (snd (run w (LifeCycle w c argv)))))) =
         (if serial_input_equals_output w' c (get_input_filename st) (get_output_filename st) then []
          else case initial_decomp w' of
                 Inl x \<Rightarrow> [InitialDecomp]
               | Inr mesh \<Rightarrow>
                   (case balancer_balance w' mesh of
                      Inl x \<Rightarrow> [InitialDecomp, Balance mesh]
                    | Inr mesh' \<Rightarrow> [InitialDecomp, Balance mesh, WriteMesh mesh']))"
proof -
  note f = LifeCycle_parsed_fields [OF assms(1,2), of c]
  note o = LifeCycle_parsed_outputP0 [OF assms(1,2), of c]
  have once: "m_exitCode (snd (run w (LifeCycle w c argv))) = 0"
    using assms(3) by (simp add: exit_code_def)
  have again: "added (snd (run w (LifeCycle w c argv))) (snd (run w' (snd (run w (LifeCycle w c argv))))) = added (LifeCycle w c argv) (snd (run w' (LifeCycle w c argv)))"
    by (simp add: run_added [OF once] run_added [OF f(1)] cong: option.case_cong thrown.case_cong)
  have d: "m_outputP0 (LifeCycle w c argv) \<noteq> Some DiagStream"
    by (simp add: o)
  have banner: "lines_to DiagStream (print_running_message (LifeCycle w c argv)) =
         (if comm_rank c = 0
          then [''Running stk_balance on '' @ show_int (comm_size c) @ '' MPI ranks'' @ endl]
             @ (if get_log_filename st = ''cout'' \<or> get_log_filename st = ''cerr'' then []
                else [''        Log file: '' @ get_log_filename st @ endl])
             @ [''      Input file: '' @ get_input_filename st @ endl,
                ''    Output files: '' @ get_output_filename st @ ''.'' @ show_int (comm_size c)
                   @ ''.*'' @ endl]
          else [])"
    by (simp add: print_running_message_def Let_def f parallel_machine_size_def)
  have lines: "lines_to DiagStream (added (LifeCycle w c argv) (snd (run w' (LifeCycle w c argv)))) =
      lines_to DiagStream (print_running_message (LifeCycle w c argv))"
    by (simp add: run_added [OF f(1)] lines_to_diag_others lines_to_diag_outputP0 [OF d]
        split: option.splits thrown.splits)
  have asked: "count_list (added (LifeCycle w c argv) (snd (run w' (LifeCycle w c argv))))
         (SerialInputEqualsOutput (get_input_filename st) (get_output_filename st)) = 1"
    by (simp add: run_added [OF f(1)] f count_list_printers count_list_balance
        split: option.splits thrown.splits)
  have calls: "pipeline (added (LifeCycle w c argv) (snd (run w' (LifeCycle w c argv)))) =
         (if serial_input_equals_output w' c (get_input_filename st) (get_output_filename st) then []
          else case initial_decomp w' of
                 Inl x \<Rightarrow> [InitialDecomp]
               | Inr mesh \<Rightarrow>
                   (case balancer_balance w' mesh of
                      Inl x \<Rightarrow> [InitialDecomp, Balance mesh]
                    | Inr mesh' \<Rightarrow> [InitialDecomp, Balance mesh, WriteMesh mesh']))"
    by (simp add: run_added [OF f(1)] f serial_no_op_def balance_def Let_def
        split: option.splits thrown.splits sum.splits)
  show ?thesis
    using again banner lines asked calls by simp
qed

theorem second_run_after_success_runs_again_witness:
  "fst (exit_code
      (snd
      (run (scenario (Inr (settings_of ''mesh.g'' ''out/mesh.g'' ''stk_balance.log'')) True (Inr 7) (Inr 8) None)
      (LifeCycle (scenario (Inr (settings_of ''mesh.g'' ''out/mesh.g'' ''stk_balance.log'')) True (Inr 7) (Inr 8) None)
        (comm_of 0 4) [''stk_balance'', ''mesh.g'', ''out''])))) = 0
   \<and> lines_to DiagStream (added
       (snd
       (run (scenario (Inr (settings_of ''mesh.g'' ''out/mesh.g'' ''stk_balance.log'')) True (Inr 7) (Inr 8) None)
       (LifeCycle (scenario (Inr (settings_of ''mesh.g'' ''out/mesh.g'' ''stk_balance.log'')) True (Inr 7) (Inr 8) None)
         (comm_of 0 4) [''stk_balance'', ''mesh.g'', ''out''])))
            (snd
            (run (scenario (Inr (settings_of ''mesh.g'' ''out/mesh.g'' ''stk_balance.log'')) True (Inr 7) (Inr 8) None)
            (snd
            (run (scenario (Inr (settings_of ''mesh.g'' ''out/mesh.g'' ''stk_balance.log'')) True (Inr 7) (Inr 8) None)
            (LifeCycle (scenario (Inr (settings_of ''mesh.g'' ''out/mesh.g'' ''stk_balance.log'')) True (Inr 7) (Inr 8) None)
              (comm_of 0 4) [''stk_balance'', ''mesh.g'', ''out''])))))) =
       [''Running stk_balance on 4 MPI ranks'' @ endl,
        ''        Log file: stk_balance.log'' @ endl,
        ''      Input file: mesh.g'' @ endl,
        ''    Output files: out/mesh.g.4.*'' @ endl]
   \<and> count_list (added
       (snd
       (run (scenario (Inr (settings_of ''mesh.g'' ''out/mesh.g'' ''stk_balance.log'')) True (Inr 7) (Inr 8) None)
       (LifeCycle (scenario (Inr (settings_of ''mesh.g'' ''out/mesh.g'' ''stk_balance.log'')) True (Inr 7) (Inr 8) None)
         (comm_of 0 4) [''stk_balance'', ''mesh.g'', ''out''])))
            (snd
            (run (scenario (Inr (settings_of ''mesh.g'' ''out/mesh.g'' ''stk_balance.log'')) True (Inr 7) (Inr 8) None)
            (snd
            (run (scenario (Inr (settings_of ''mesh.g'' ''out/mesh.g'' ''stk_balance.log'')) True (Inr 7) (Inr 8) None)
            (LifeCycle (scenario (Inr (settings_of ''mesh.g'' ''out/mesh.g'' ''stk_balance.log'')) True (Inr 7) (Inr 8) None)
              (comm_of 0 4) [''stk_balance'', ''mesh.g'', ''out'']))))))
        (SerialInputEqualsOutput ''mesh.g'' ''out/mesh.g'') = 1
   \<and> pipeline (added
       (snd
       (run (scenario (Inr (settings_of ''mesh.g'' ''out/mesh.g'' ''stk_balance.log'')) True (Inr 7) (Inr 8) None)
       (LifeCycle (scenario (Inr (settings_of ''mesh.g'' ''out/mesh.g'' ''stk_balance.log'')) True (Inr 7) (Inr 8) None)
         (comm_of 0 4) [''stk_balance'', ''mesh.g'', ''out''])))
            (snd
            (run (scenario (Inr (settings_of ''mesh.g'' ''out/mesh.g'' ''stk_balance.log'')) True (Inr 7) (Inr 8) None)
            (snd
            (run (scenario (Inr (settings_of ''mesh.g'' ''out/mesh.g'' ''stk_balance.log'')) True (Inr 7) (Inr 8) None)
            (LifeCycle (scenario (Inr (settings_of ''mesh.g'' ''out/mesh.g'' ''stk_balance.log'')) True (Inr 7) (Inr 8) None)
              (comm_of 0 4) [''stk_balance'', ''mesh.g'', ''out''])))))) = [InitialDecomp, Balance 7, WriteMesh 8]"
proof -
  let ?st = "settings_of ''mesh.g'' ''out/mesh.g'' ''stk_balance.log''"
  let ?w = "scenario (Inr ?st) True (Inr 7) (Inr 8) None"
  let ?s = "LifeCycle ?w (comm_of 0 4) [''stk_balance'', ''mesh.g'', ''out'']"
  have a: "parse_command_line_options ?w [''stk_balance'', ''mesh.g'', ''out''] (default_settings ?w) = Inr ?st"
    and b: "file_exists ?w (get_input_filename ?st)" by simp_all
  note f = LifeCycle_parsed_fields [OF a b, of "comm_of 0 4"]
  have once: "fst (exit_code (snd (run ?w ?s))) = 0"
    by (simp add: exit_code_def run_exit_code [OF f(1)] balance_def Let_def)
  have four: "show_int 4 = ''4''" by code_simp
  note again = second_run_after_success_runs_again [OF a b once, of ?w]
  have banner: "lines_to DiagStream (added (snd (run ?w ?s)) (snd (run ?w (snd (run ?w ?s))))) =
       [''Running stk_balance on 4 MPI ranks'' @ endl,
        ''        Log file: stk_balance.log'' @ endl,
        ''      Input file: mesh.g'' @ endl,
        ''    Output files: out/mesh.g.4.*'' @ endl]"
    using again [THEN conjunct2, THEN conjunct1] four by simp
  have asked: "count_list (added (snd (run ?w ?s)) (snd (run ?w (snd (run ?w ?s)))))
        (SerialInputEqualsOutput ''mesh.g'' ''out/mesh.g'') = 1"
    using again [THEN conjunct2, THEN conjunct2, THEN conjunct1] by simp
  have calls: "pipeline (added (snd (run ?w ?s)) (snd (run ?w (snd (run ?w ?s))))) =
       [InitialDecomp, Balance 7, WriteMesh 8]"
    using again [THEN conjunct2, THEN conjunct2, THEN conjunct2]
    by (simp add: serial_input_equals_output_def)
  from once banner asked calls show ?thesis
    by (intro conjI)
qed

end
